theory Spec2Isabelle
  imports Main "HOL-Library.AList"
begin

section \<open>Python values, dictionaries and exceptions\<close>

text \<open>
  Attribute values are Python objects. The model keeps \<open>None\<close>, integers (booleans are the
  integers 0 and 1, as Python's \<open>==\<close>, \<open>+\<close> and truth test treat them), strings and lists;
  Python's \<open>==\<close> on these is HOL equality. A tuple of atom keys or of parameters is a HOL list
  (\<open>tuple(xs)\<close> is the identity on it).
\<close>

datatype pyval = PNone | PInt int | PStr string | PList "pyval list"

text \<open>
  The exceptions the modelled code raises. A \<open>ValueError\<close> carries the message template of its
  raise statement (format fields not filled in), which tells the raise sites apart.
\<close>

datatype py_error = ValueError string | KeyError | TypeError | AttributeError | RuntimeError

text \<open>
  The ValueErrors of \<open>add_interaction\<close> and \<open>merge_molecule\<close>, under the names the
  specification gives these failures.
\<close>

definition AtomNotFound :: py_error where
  "AtomNotFound = ValueError ''Unknown atom {}''"

definition ForceFieldMismatch :: py_error where
  "ForceFieldMismatch = ValueError ''Cannot merge molecules with different force fields.''"

definition NrexclMismatch :: py_error where
  "NrexclMismatch = ValueError ''Cannot merge molecules with different nrexcl. This molecule has nrexcl={}, while the other has nrexcl={}.''"

text \<open>A dictionary of attributes, string keys to values: \<open>node[key]\<close> is \<open>node key\<close>.\<close>

type_synonym attrs = "string \<rightharpoonup> pyval"

text \<open>\<open>node.get(key)\<close> and \<open>node.get(key, default)\<close>.\<close>

definition dict_get :: "attrs \<Rightarrow> string \<Rightarrow> pyval" where
  "dict_get node key = (case node key of None \<Rightarrow> PNone | Some v \<Rightarrow> v)"

definition dict_get_default :: "attrs \<Rightarrow> string \<Rightarrow> pyval \<Rightarrow> pyval" where
  "dict_get_default node key d = (case node key of None \<Rightarrow> d | Some v \<Rightarrow> v)"

text \<open>Python's truth test of a value (\<open>if v:\<close>).\<close>

fun truthy :: "pyval \<Rightarrow> bool" where
  "truthy PNone = False"
| "truthy (PInt i) = (i \<noteq> 0)"
| "truthy (PStr s) = (s \<noteq> [])"
| "truthy (PList l) = (l \<noteq> [])"

text \<open>Python's \<open>a + b\<close>: defined on two integers, two strings or two lists, a TypeError otherwise.\<close>

fun py_add :: "pyval \<Rightarrow> pyval \<Rightarrow> py_error + pyval" where
  "py_add (PInt a) (PInt b) = Inr (PInt (a + b))"
| "py_add (PStr a) (PStr b) = Inr (PStr (a @ b))"
| "py_add (PList a) (PList b) = Inr (PList (a @ b))"
| "py_add _ _ = Inl TypeError"

section \<open>Link predicates\<close>

text \<open>
  The subclasses of \<open>LinkPredicate\<close>, each holding its reference \<open>value\<close>; \<open>Choice\<close> holds a
  list.
\<close>

datatype link_predicate = Choice "pyval list" | NotDefinedOrNot pyval

text \<open>
  \<open>Choice.match\<close> is \<open>node.get(key) in self.value\<close>;
  \<open>NotDefinedOrNot.match\<close> is \<open>key not in node or node[key] != self.value\<close>.
\<close>

fun match :: "link_predicate \<Rightarrow> attrs \<Rightarrow> string \<Rightarrow> bool" where
  "match (Choice value) node key = (dict_get node key \<in> set value)"
| "match (NotDefinedOrNot value) node key =
     (case node key of None \<Rightarrow> True | Some v \<Rightarrow> v \<noteq> value)"

text \<open>
  A value of a template's attribute dictionary: a plain value, or an instance of
  \<open>LinkPredicate\<close>.
\<close>

datatype template_value = Plain pyval | Predicate link_predicate

text \<open>
  A template's dictionary is iterated (\<open>template_attributes.items()\<close>), so it is a list of
  items in iteration order.
\<close>

type_synonym template_attrs = "(string \<times> template_value) list"

fun attributes_match :: "attrs \<Rightarrow> template_attrs \<Rightarrow> string list \<Rightarrow> bool" where
  "attributes_match attributes [] ignore_keys = True"
| "attributes_match attributes ((attr, value) # rest) ignore_keys =
     (if attr \<in> set ignore_keys then attributes_match attributes rest ignore_keys
      else (case value of
              Predicate p \<Rightarrow>
                (if \<not> match p attributes attr then False
                 else attributes_match attributes rest ignore_keys)
            | Plain v \<Rightarrow>
                (if dict_get attributes attr \<noteq> v then False
                 else attributes_match attributes rest ignore_keys)))"

section \<open>Interactions and the molecule graph\<close>

text \<open>
  \<open>Interaction = namedtuple('Interaction', 'atoms parameters meta')\<close>: the entries of a
  molecule's interaction registry. The key type \<open>'k\<close> is the type of the atom keys (integer
  ids in a molecule, names in a block).
\<close>

record 'k interaction =
  atoms :: "'k list"
  parameters :: "pyval list"
  meta :: attrs

text \<open>
  A template handed to \<open>interaction_match\<close> is an \<open>Interaction\<close> or a
  \<open>DeleteInteraction = namedtuple('DeleteInteraction', 'atoms atom_attrs parameters meta')\<close>;
  the dictionaries of a template may hold predicates.
\<close>

datatype 'k template_interaction =
    TemplateInteraction "'k list" "pyval list" template_attrs
  | DeleteInteraction "'k list" "template_attrs list" "pyval list" template_attrs

fun template_atoms :: "'k template_interaction \<Rightarrow> 'k list" where
  "template_atoms (TemplateInteraction a p m) = a"
| "template_atoms (DeleteInteraction a aa p m) = a"

fun template_parameters :: "'k template_interaction \<Rightarrow> pyval list" where
  "template_parameters (TemplateInteraction a p m) = p"
| "template_parameters (DeleteInteraction a aa p m) = p"

fun template_meta :: "'k template_interaction \<Rightarrow> template_attrs" where
  "template_meta (TemplateInteraction a p m) = m"
| "template_meta (DeleteInteraction a aa p m) = m"

text \<open>
  \<open>template_interaction.atom_attrs\<close>, an AttributeError on an \<open>Interaction\<close>, which has no such
  field.
\<close>

fun template_atom_attrs :: "'k template_interaction \<Rightarrow> py_error + template_attrs list" where
  "template_atom_attrs (TemplateInteraction a p m) = Inl AttributeError"
| "template_atom_attrs (DeleteInteraction a aa p m) = Inr aa"

text \<open>
  \<open>class Molecule(nx.Graph)\<close> with \<open>node_dict_factory = OrderedDict\<close>: the nodes are kept in
  insertion order with their attribute dictionaries (a list of items with distinct keys), the
  edges are pairs of node keys, and \<open>interactions\<close> is a \<open>defaultdict(list)\<close>, kept as its
  items in insertion order. The force field is an opaque object compared with \<open>!=\<close>, here
  its name; \<open>None\<close> is \<open>None\<close>.
\<close>

record 'k molecule =
  nodes :: "('k \<times> attrs) list"
  edges :: "('k \<times> 'k) list"
  interactions :: "(string \<times> 'k interaction list) list"
  molecule_meta :: attrs
  force_field :: "string option"
  nrexcl :: "int option"

text \<open>\<open>class Block(Molecule)\<close> adds the residue name.\<close>

record 'k block = "'k molecule" +
  name :: "string option"

subsection \<open>The graph substrate (networkx)\<close>

text \<open>\<open>atom in self\<close>.\<close>

definition has_node :: "('k, 'z) molecule_scheme \<Rightarrow> 'k \<Rightarrow> bool" where
  "has_node self n = (n \<in> set (map fst (nodes self)))"

text \<open>
  \<open>Graph.add_node(n, **attr)\<close>: a new node is appended with the attributes; the attributes of
  a node that exists are updated with the given ones.
\<close>

definition add_node :: "'k \<Rightarrow> attrs \<Rightarrow> ('k, 'z) molecule_scheme \<Rightarrow> ('k, 'z) molecule_scheme" where
  "add_node n attr self =
     (if has_node self n
      then self\<lparr>nodes := AList.map_entry n (\<lambda>old. old ++ attr) (nodes self)\<rparr>
      else self\<lparr>nodes := nodes self @ [(n, attr)]\<rparr>)"

text \<open>
  The call \<open>self.add_node(idx, **new_atom)\<close> of \<open>merge_molecule\<close> passes the attributes
  as keyword arguments to \<open>add_node(self, node_for_adding, **attr)\<close>: an attribute named as
  one of the two positional parameters is a second value for that parameter, a TypeError
  raised before the method runs.
\<close>

definition add_node_keywords ::
  "'k \<Rightarrow> attrs \<Rightarrow> ('k, 'z) molecule_scheme \<Rightarrow> (py_error + unit) \<times> ('k, 'z) molecule_scheme" where
  "add_node_keywords n attr self =
     (if attr ''node_for_adding'' \<noteq> None \<or> attr ''self'' \<noteq> None then (Inl TypeError, self)
      else (Inr (), add_node n attr self))"

text \<open>
  \<open>Graph.add_edge(u, v)\<close>: both ends become nodes (with no attribute) when they are not, and
  the undirected edge is recorded once.
\<close>

definition add_edge :: "'k \<Rightarrow> 'k \<Rightarrow> ('k, 'z) molecule_scheme \<Rightarrow> ('k, 'z) molecule_scheme" where
  "add_edge u v self =
     (let self1 = (if has_node self u then self else self\<lparr>nodes := nodes self @ [(u, Map.empty)]\<rparr>);
          self2 = (if has_node self1 v then self1 else self1\<lparr>nodes := nodes self1 @ [(v, Map.empty)]\<rparr>)
      in if (u, v) \<in> set (edges self2) \<or> (v, u) \<in> set (edges self2) then self2
         else self2\<lparr>edges := edges self2 @ [(u, v)]\<rparr>)"

subsection \<open>The interaction registry\<close>

text \<open>
  \<open>self.interactions[type_]\<close> on the \<open>defaultdict(list)\<close>: the list stored under the key; a
  missing key is first inserted with an empty list. The result is the list and the registry
  after the access.
\<close>

definition registry_getitem ::
  "string \<Rightarrow> (string \<times> 'k interaction list) list
     \<Rightarrow> 'k interaction list \<times> (string \<times> 'k interaction list) list" where
  "registry_getitem type' reg =
     (case map_of reg type' of
        None \<Rightarrow> ([], reg @ [(type', [])])
      | Some l \<Rightarrow> (l, reg))"

text \<open>\<open>self.interactions.get(type_, [])\<close>: a read that inserts nothing.\<close>

definition registry_get :: "string \<Rightarrow> (string \<times> 'k interaction list) list \<Rightarrow> 'k interaction list" where
  "registry_get type' reg = (case map_of reg type' of None \<Rightarrow> [] | Some l \<Rightarrow> l)"

text \<open>
  A method that mutates \<open>self\<close> returns its outcome (the exception raised, or the value
  returned) together with \<open>self\<close> as the call leaves it.
\<close>

definition add_interaction ::
  "string \<Rightarrow> 'k list \<Rightarrow> pyval list \<Rightarrow> attrs option \<Rightarrow> ('k, 'z) molecule_scheme
     \<Rightarrow> (py_error + unit) \<times> ('k, 'z) molecule_scheme" where
  "add_interaction type' atoms' parameters' meta' self =
     (let meta1 = (case meta' of None \<Rightarrow> Map.empty | Some m \<Rightarrow> m) in
      case find (\<lambda>atom. \<not> has_node self atom) atoms' of
        Some atom \<Rightarrow> (Inl AtomNotFound, self)
      | None \<Rightarrow>
         (let (l, reg) = registry_getitem type' (interactions self) in
          (Inr (),
           self\<lparr>interactions :=
             AList.update type'
               (l @ [\<lparr>atoms = atoms', parameters = parameters', meta = meta1\<rparr>]) reg\<rparr>)))"

definition get_interaction ::
  "string \<Rightarrow> ('k, 'z) molecule_scheme \<Rightarrow> 'k interaction list \<times> ('k, 'z) molecule_scheme" where
  "get_interaction type' self =
     (let (l, reg) = registry_getitem type' (interactions self) in (l, self\<lparr>interactions := reg\<rparr>))"

text \<open>
  The second test of \<open>remove_interaction\<close>'s condition, the truth value of
  \<open>interaction.meta.get('version', 0)\<close>.
\<close>

definition version_true :: "'k interaction \<Rightarrow> bool" where
  "version_true interaction = truthy (dict_get_default (meta interaction) ''version'' (PInt 0))"

text \<open>
  The loop of \<open>remove_interaction\<close>: the index of the first entry whose atoms equal \<open>atoms\<close>
  and whose \<open>meta.get('version', 0)\<close> is true; \<open>None\<close> when the loop ends without
  \<open>break\<close>.
\<close>

fun remove_interaction_loop :: "'k list \<Rightarrow> nat \<Rightarrow> 'k interaction list \<Rightarrow> nat option" where
  "remove_interaction_loop atoms' idx [] = None"
| "remove_interaction_loop atoms' idx (interaction # rest) =
     (if atoms interaction = atoms' \<and> version_true interaction
      then Some idx
      else remove_interaction_loop atoms' (Suc idx) rest)"

text \<open>\<open>del l[idx]\<close>, for an index in range.\<close>

definition list_del :: "nat \<Rightarrow> 'a list \<Rightarrow> 'a list" where
  "list_del idx l = take idx l @ drop (Suc idx) l"

text \<open>
  \<open>remove_interaction(type_, atoms, version=0)\<close>, called with a tuple of atoms; the argument
  \<open>version\<close> is only used in the message of the KeyError.
\<close>

definition remove_interaction ::
  "string \<Rightarrow> 'k list \<Rightarrow> pyval \<Rightarrow> ('k, 'z) molecule_scheme
     \<Rightarrow> (py_error + unit) \<times> ('k, 'z) molecule_scheme" where
  "remove_interaction type' atoms' version self =
     (let (l, reg) = registry_getitem type' (interactions self) in
      case remove_interaction_loop atoms' 0 l of
        None \<Rightarrow> (Inl KeyError, self\<lparr>interactions := reg\<rparr>)
      | Some idx \<Rightarrow> (Inr (), self\<lparr>interactions := AList.update type' (list_del idx l) reg\<rparr>))"

subsection \<open>Dihedrals and impropers of a block\<close>

text \<open>
  \<open>dih['atoms']\<close>: the entries of the registry are \<open>Interaction\<close> named tuples, and a
  tuple subscripted with a string raises TypeError (tuple indices must be integers or slices).
\<close>

definition interaction_getitem :: "'k interaction \<Rightarrow> string \<Rightarrow> py_error + 'k list" where
  "interaction_getitem dih key = Inl TypeError"

text \<open>The slice \<open>xs[1:-1]\<close>.\<close>

definition slice_1_m1 :: "'a list \<Rightarrow> 'a list" where
  "slice_1_m1 xs = butlast (tl xs)"

text \<open>
  The list comprehension of \<open>has_dihedral_around\<close>,
  \<open>[tuple(dih['atoms'][1:-1]) for dih in self.interactions.get('dihedrals', [])]\<close>.
\<close>

fun dihedral_centers :: "'k interaction list \<Rightarrow> py_error + 'k list list" where
  "dihedral_centers [] = Inr []"
| "dihedral_centers (dih # rest) =
     (case interaction_getitem dih ''atoms'' of
        Inl e \<Rightarrow> Inl e
      | Inr a \<Rightarrow>
         (case dihedral_centers rest of
            Inl e \<Rightarrow> Inl e
          | Inr cs \<Rightarrow> Inr (slice_1_m1 a # cs)))"

definition has_dihedral_around :: "'k list \<Rightarrow> ('k, 'z) block_scheme \<Rightarrow> py_error + bool" where
  "has_dihedral_around center self =
     (case dihedral_centers (registry_get ''dihedrals'' (interactions self)) of
        Inl e \<Rightarrow> Inl e
      | Inr all_centers \<Rightarrow> Inr (center \<in> set all_centers))"

text \<open>
  \<open>has_improper_around\<close> reads the field instead:
  \<open>[tuple(dih.atoms[1:-1]) for dih in self.interactions.get('impropers', [])]\<close>.
\<close>

definition has_improper_around :: "'k list \<Rightarrow> ('k, 'z) block_scheme \<Rightarrow> py_error + bool" where
  "has_improper_around center self =
     (let all_centers = map (\<lambda>dih. slice_1_m1 (atoms dih)) (registry_get ''impropers'' (interactions self))
      in Inr (center \<in> set all_centers))"

section \<open>Matching an interaction against a template\<close>

text \<open>
  \<open>[molecule.nodes[atom] for atom in interaction.atoms]\<close>: a KeyError at the first atom that is
  not a node.
\<close>

fun nodes_of_atoms :: "('k \<times> attrs) list \<Rightarrow> 'k list \<Rightarrow> py_error + attrs list" where
  "nodes_of_atoms ns [] = Inr []"
| "nodes_of_atoms ns (atom # rest) =
     (case map_of ns atom of
        None \<Rightarrow> Inl KeyError
      | Some node \<Rightarrow>
         (case nodes_of_atoms ns rest of
            Inl e \<Rightarrow> Inl e
          | Inr nodes' \<Rightarrow> Inr (node # nodes')))"

text \<open>
  The loop \<open>for atom, template_atom in zip(nodes, atom_attrs)\<close>: False at the first pair that
  does not match, True when the shorter list is exhausted.
\<close>

fun atom_attrs_loop :: "attrs list \<Rightarrow> template_attrs list \<Rightarrow> bool" where
  "atom_attrs_loop (atom # nodes') (template_atom # atom_attrs) =
     (if \<not> attributes_match atom template_atom [] then False
      else atom_attrs_loop nodes' atom_attrs)"
| "atom_attrs_loop nodes' atom_attrs = True"

definition interaction_match ::
  "('k, 'z) molecule_scheme \<Rightarrow> 'k interaction \<Rightarrow> 'k template_interaction \<Rightarrow> py_error + bool" where
  "interaction_match molecule interaction template_interaction =
     (let atoms_match = (template_atoms template_interaction = atoms interaction);
          parameters_match =
            (template_parameters template_interaction = []
             \<or> template_parameters template_interaction = parameters interaction)
      in if atoms_match \<and> parameters_match then
           (let atom_attrs =
                  (case template_atom_attrs template_interaction of
                     Inr aa \<Rightarrow> aa
                   | Inl e \<Rightarrow> replicate (length (template_atoms template_interaction)) [])
            in case nodes_of_atoms (nodes molecule) (atoms interaction) of
                 Inl e \<Rightarrow> Inl e
               | Inr nodes' \<Rightarrow>
                   (if \<not> atom_attrs_loop nodes' atom_attrs then Inr False
                    else Inr (attributes_match (meta interaction)
                                (template_meta template_interaction) [])))
         else Inr False)"

section \<open>Link parameter effectors\<close>

text \<open>The class \<open>LinkParameterEffector\<close> and its subclasses.\<close>

datatype effector_class =
  LinkParameterEffector | ParamDistance | ParamAngle | ParamDihedral | ParamDihedralPhase

text \<open>The class attribute \<open>n_keys_asked\<close>.\<close>

fun n_keys_asked :: "effector_class \<Rightarrow> nat option" where
  "n_keys_asked LinkParameterEffector = None"
| "n_keys_asked ParamDistance = Some 2"
| "n_keys_asked ParamAngle = Some 3"
| "n_keys_asked ParamDihedral = Some 4"
| "n_keys_asked ParamDihedralPhase = Some 4"

text \<open>
  \<open>self.__class__.name\<close>: none of the classes, nor \<open>object\<close> or \<open>type\<close>, has an attribute
  \<open>name\<close> (a class has \<open>__name__\<close>), so the lookup raises AttributeError.
\<close>

definition class_name_attribute :: "effector_class \<Rightarrow> py_error + string" where
  "class_name_attribute c = Inl AttributeError"

record 'k effector =
  effector_class :: effector_class
  keys :: "'k list"
  format :: "string option"

text \<open>
  \<open>LinkParameterEffector.__init__(self, keys, format=None)\<close>, inherited by all subclasses. The
  arguments of the message's \<open>format\<close> call are evaluated before the ValueError is built.
\<close>

definition effector_init ::
  "effector_class \<Rightarrow> 'k list \<Rightarrow> string option \<Rightarrow> py_error + 'k effector" where
  "effector_init c keys' format' =
     (if n_keys_asked c \<noteq> None \<and> Some (length keys') \<noteq> n_keys_asked c then
        (case class_name_attribute c of
           Inl e \<Rightarrow> Inl e
         | Inr class_name \<Rightarrow> Inl (ValueError ''Unexpected number of keys provided in {}: {} were expected, but {} were provided.''))
      else Inr \<lparr>effector_class = c, keys = keys', format = format'\<rparr>)"

section \<open>Merging a molecule into another\<close>

text \<open>
  In \<open>merge_molecule\<close>, \<open>self\<close> has integer node ids (\<open>max(self)\<close>, \<open>offset + 1\<close>); the
  merged molecule has keys of any type. The correspondence is a dictionary, kept as its items
  in insertion order.

  \<open>merge_molecule self molecule\<close> is the call \<open>self.merge_molecule(molecule)\<close> with a
  \<open>molecule\<close> that is another object than \<open>self\<close>: what the call inserts into \<open>self\<close> does
  not change the nodes, interactions and edges of \<open>molecule\<close> that its loops read. The call
  \<open>self.merge_molecule(self)\<close>, whose loops read the containers they change, is
  \<open>merge_molecule_itself\<close> below.
\<close>

text \<open>
  The first loop, \<open>for idx, node in enumerate(molecule.nodes(), start=offset + 1)\<close>, over the
  nodes of another object. An addition or an \<open>add_node\<close> call that fails leaves \<open>self\<close> with
  the atoms inserted so far.
\<close>

fun merge_atoms ::
  "pyval \<Rightarrow> pyval \<Rightarrow> int \<Rightarrow> ('k \<times> attrs) list \<Rightarrow> ('k \<times> int) list \<Rightarrow> (int, 'z) molecule_scheme
     \<Rightarrow> (py_error + ('k \<times> int) list) \<times> (int, 'z) molecule_scheme" where
  "merge_atoms residue_offset offset_charge_group idx [] correspondence self =
     (Inr correspondence, self)"
| "merge_atoms residue_offset offset_charge_group idx ((node, attr) # rest) correspondence self =
     (let correspondence1 = AList.update node idx correspondence in
      case py_add (dict_get_default attr ''resid'' (PInt 1)) residue_offset of
        Inl e \<Rightarrow> (Inl e, self)
      | Inr resid \<Rightarrow>
         (case py_add (dict_get_default attr ''charge_group'' (PInt 1)) offset_charge_group of
            Inl e \<Rightarrow> (Inl e, self)
          | Inr charge_group \<Rightarrow>
             (case add_node_keywords idx
                     (attr(''resid'' \<mapsto> resid, ''charge_group'' \<mapsto> charge_group)) self of
                (Inl e, self1) \<Rightarrow> (Inl e, self1)
              | (Inr u, self1) \<Rightarrow>
                  merge_atoms residue_offset offset_charge_group (idx + 1) rest
                    correspondence1 self1)))"

text \<open>\<open>tuple(correspondence[atom] for atom in interaction.atoms)\<close>.\<close>

fun correspondence_atoms :: "('k \<times> int) list \<Rightarrow> 'k list \<Rightarrow> py_error + int list" where
  "correspondence_atoms correspondence [] = Inr []"
| "correspondence_atoms correspondence (atom # rest) =
     (case map_of correspondence atom of
        None \<Rightarrow> Inl KeyError
      | Some idx \<Rightarrow>
         (case correspondence_atoms correspondence rest of
            Inl e \<Rightarrow> Inl e
          | Inr idxs \<Rightarrow> Inr (idx # idxs)))"

text \<open>The inner loop \<open>for interaction in interactions\<close>.\<close>

fun merge_interaction_list ::
  "('k \<times> int) list \<Rightarrow> string \<Rightarrow> 'k interaction list \<Rightarrow> (int, 'z) molecule_scheme
     \<Rightarrow> (py_error + unit) \<times> (int, 'z) molecule_scheme" where
  "merge_interaction_list correspondence name' [] self = (Inr (), self)"
| "merge_interaction_list correspondence name' (interaction # rest) self =
     (case correspondence_atoms correspondence (atoms interaction) of
        Inl e \<Rightarrow> (Inl e, self)
      | Inr atoms' \<Rightarrow>
         (case add_interaction name' atoms' (parameters interaction) (Some (meta interaction)) self of
            (Inl e, self1) \<Rightarrow> (Inl e, self1)
          | (Inr u, self1) \<Rightarrow> merge_interaction_list correspondence name' rest self1))"

text \<open>The outer loop \<open>for name, interactions in molecule.interactions.items()\<close>.\<close>

fun merge_interactions ::
  "('k \<times> int) list \<Rightarrow> (string \<times> 'k interaction list) list \<Rightarrow> (int, 'z) molecule_scheme
     \<Rightarrow> (py_error + unit) \<times> (int, 'z) molecule_scheme" where
  "merge_interactions correspondence [] self = (Inr (), self)"
| "merge_interactions correspondence ((name', interactions') # rest) self =
     (case merge_interaction_list correspondence name' interactions' self of
        (Inl e, self1) \<Rightarrow> (Inl e, self1)
      | (Inr u, self1) \<Rightarrow> merge_interactions correspondence rest self1)"

text \<open>The loop \<open>for node1, node2 in molecule.edges\<close>.\<close>

fun merge_edges ::
  "('k \<times> int) list \<Rightarrow> ('k \<times> 'k) list \<Rightarrow> (int, 'z) molecule_scheme
     \<Rightarrow> (py_error + unit) \<times> (int, 'z) molecule_scheme" where
  "merge_edges correspondence [] self = (Inr (), self)"
| "merge_edges correspondence ((node1, node2) # rest) self =
     (case map_of correspondence node1 of
        None \<Rightarrow> (Inl KeyError, self)
      | Some c1 \<Rightarrow>
         (case map_of correspondence node2 of
            None \<Rightarrow> (Inl KeyError, self)
          | Some c2 \<Rightarrow>
              merge_edges correspondence rest (if c1 \<noteq> c2 then add_edge c1 c2 self else self)))"

text \<open>
  The offsets: \<open>max(self)\<close>, \<open>self.nodes[last_node_idx]['resid']\<close> (a KeyError when the atom has
  no resid) and \<open>self.nodes[last_node_idx].get('charge_group', 1)\<close> when \<open>self\<close> has nodes,
  all 0 otherwise.
\<close>

definition merge_offsets :: "(int \<times> attrs) list \<Rightarrow> py_error + (int \<times> pyval \<times> pyval)" where
  "merge_offsets ns =
     (case ns of
        [] \<Rightarrow> Inr (0, PInt 0, PInt 0)
      | (k, a) # rest \<Rightarrow>
         (let last_node_idx = fold max (map fst rest) k in
          case map_of ns last_node_idx of
            None \<Rightarrow> Inl KeyError
          | Some last_node \<Rightarrow>
             (case last_node ''resid'' of
                None \<Rightarrow> Inl KeyError
              | Some residue_offset \<Rightarrow>
                  Inr (last_node_idx, residue_offset,
                       dict_get_default last_node ''charge_group'' (PInt 1)))))"

definition merge_molecule ::
  "(int, 'z) molecule_scheme \<Rightarrow> ('k, 'y) molecule_scheme
     \<Rightarrow> (py_error + ('k \<times> int) list) \<times> (int, 'z) molecule_scheme" where
  "merge_molecule self molecule =
     (if force_field self \<noteq> force_field molecule then
        (Inl ForceFieldMismatch, self)
      else
        (let self1 = (if nrexcl self = None \<and> nodes self = []
                      then self\<lparr>nrexcl := nrexcl molecule\<rparr> else self)
         in if nrexcl self1 \<noteq> nrexcl molecule then
              (Inl NrexclMismatch, self1)
            else
              (case merge_offsets (nodes self1) of
                 Inl e \<Rightarrow> (Inl e, self1)
               | Inr (offset, residue_offset, offset_charge_group) \<Rightarrow>
                  (case merge_atoms residue_offset offset_charge_group (offset + 1)
                          (nodes molecule) [] self1 of
                     (Inl e, self2) \<Rightarrow> (Inl e, self2)
                   | (Inr correspondence, self2) \<Rightarrow>
                      (case merge_interactions correspondence (interactions molecule) self2 of
                         (Inl e, self3) \<Rightarrow> (Inl e, self3)
                       | (Inr u, self3) \<Rightarrow>
                          (case merge_edges correspondence (edges molecule) self3 of
                             (Inl e, self4) \<Rightarrow> (Inl e, self4)
                           | (Inr u, self4) \<Rightarrow> (Inr correspondence, self4)))))))"

subsection \<open>Merging a molecule into itself\<close>

text \<open>
  In \<open>self.merge_molecule(self)\<close> the first loop iterates the \<open>OrderedDict\<close> of nodes that
  \<open>add_node\<close> extends. The iterator holds the key it will give next; asked for a key after
  the dictionary has changed it raises RuntimeError, unless the key given last was the last
  one, when it just ends. The list is the nodes still to visit as they were at the call, the
  flag says that an atom has been inserted since.
\<close>

fun merge_atoms_itself ::
  "pyval \<Rightarrow> pyval \<Rightarrow> int \<Rightarrow> bool \<Rightarrow> (int \<times> attrs) list \<Rightarrow> (int \<times> int) list \<Rightarrow> int molecule
     \<Rightarrow> (py_error + (int \<times> int) list) \<times> int molecule" where
  "merge_atoms_itself residue_offset offset_charge_group idx mutated [] correspondence self =
     (Inr correspondence, self)"
| "merge_atoms_itself residue_offset offset_charge_group idx mutated ((node, attr) # rest)
       correspondence self =
     (if mutated then (Inl RuntimeError, self)
      else
        (case py_add (dict_get_default attr ''resid'' (PInt 1)) residue_offset of
           Inl e \<Rightarrow> (Inl e, self)
         | Inr resid \<Rightarrow>
            (case py_add (dict_get_default attr ''charge_group'' (PInt 1)) offset_charge_group of
               Inl e \<Rightarrow> (Inl e, self)
             | Inr charge_group \<Rightarrow>
                (case add_node_keywords idx
                        (attr(''resid'' \<mapsto> resid, ''charge_group'' \<mapsto> charge_group)) self of
                   (Inl e, self1) \<Rightarrow> (Inl e, self1)
                 | (Inr u, self1) \<Rightarrow>
                     merge_atoms_itself residue_offset offset_charge_group (idx + 1) True rest
                       (AList.update node idx correspondence) self1))))"

text \<open>
  The inner loop \<open>for interaction in interactions\<close> then runs over the very list that
  \<open>add_interaction\<close> appends to: the list iterator reads position \<open>i\<close> of the list as it
  is when asked, so the loop only ends by an exception or on an empty list, and may run
  forever (the value \<open>None\<close>).
\<close>

partial_function (option) merge_interaction_list_itself ::
  "(int \<times> int) list \<Rightarrow> string \<Rightarrow> nat \<Rightarrow> int molecule
     \<Rightarrow> ((py_error + unit) \<times> int molecule) option" where
  "merge_interaction_list_itself correspondence name' i self =
     (if i < length (registry_get name' (interactions self)) then
        (case correspondence_atoms correspondence
                (atoms (registry_get name' (interactions self) ! i)) of
           Inl e \<Rightarrow> Some (Inl e, self)
         | Inr atoms' \<Rightarrow>
            (case add_interaction name' atoms'
                    (parameters (registry_get name' (interactions self) ! i))
                    (Some (meta (registry_get name' (interactions self) ! i))) self of
               (Inl e, self1) \<Rightarrow> Some (Inl e, self1)
             | (Inr u, self1) \<Rightarrow>
                 merge_interaction_list_itself correspondence name' (Suc i) self1))
      else Some (Inr (), self))"

text \<open>
  The outer loop over \<open>molecule.interactions.items()\<close>: \<open>add_interaction\<close> adds no key to
  the registry here (the type is the key of the list being read), so the types are those
  present when the loop starts.
\<close>

fun merge_interactions_itself ::
  "(int \<times> int) list \<Rightarrow> string list \<Rightarrow> int molecule
     \<Rightarrow> ((py_error + unit) \<times> int molecule) option" where
  "merge_interactions_itself correspondence [] self = Some (Inr (), self)"
| "merge_interactions_itself correspondence (name' # rest) self =
     (case merge_interaction_list_itself correspondence name' 0 self of
        None \<Rightarrow> None
      | Some (Inl e, self1) \<Rightarrow> Some (Inl e, self1)
      | Some (Inr u, self1) \<Rightarrow> merge_interactions_itself correspondence rest self1)"

text \<open>
  \<open>self.merge_molecule(self)\<close>. Both checks compare an attribute with itself and pass, and
  the adoption of nrexcl changes nothing. The loop over the edges is reached with at most one
  key in the correspondence (a second node ends the first loop), so it never calls
  \<open>add_edge\<close> and reads the edges as they are.
\<close>

definition merge_molecule_itself ::
  "int molecule \<Rightarrow> ((py_error + (int \<times> int) list) \<times> int molecule) option" where
  "merge_molecule_itself self =
     (case merge_offsets (nodes self) of
        Inl e \<Rightarrow> Some (Inl e, self)
      | Inr (offset, residue_offset, offset_charge_group) \<Rightarrow>
         (case merge_atoms_itself residue_offset offset_charge_group (offset + 1) False
                 (nodes self) [] self of
            (Inl e, self2) \<Rightarrow> Some (Inl e, self2)
          | (Inr correspondence, self2) \<Rightarrow>
             (case merge_interactions_itself correspondence (map fst (interactions self2)) self2 of
                None \<Rightarrow> None
              | Some (Inl e, self3) \<Rightarrow> Some (Inl e, self3)
              | Some (Inr u, self3) \<Rightarrow>
                 (case merge_edges correspondence (edges self3) self3 of
                    (Inl e, self4) \<Rightarrow> Some (Inl e, self4)
                  | (Inr u, self4) \<Rightarrow> Some (Inr correspondence, self4)))))"

section \<open>Well-formed molecules\<close>

text \<open>
  What the data structures guarantee of a molecule: the node keys are the keys of a
  dictionary, so distinct; the registry's interactions are over atoms of the molecule (the
  check of \<open>add_interaction\<close>); the ends of the graph's edges are nodes.
\<close>

definition well_formed :: "('k, 'z) molecule_scheme \<Rightarrow> bool" where
  "well_formed m \<longleftrightarrow>
     distinct (map fst (nodes m))
     \<and> (\<forall>(t, l) \<in> set (interactions m). \<forall>i \<in> set l. set (atoms i) \<subseteq> set (map fst (nodes m)))
     \<and> (\<forall>(u, v) \<in> set (edges m). u \<in> set (map fst (nodes m)) \<and> v \<in> set (map fst (nodes m)))"

text \<open>
  The integer that \<open>atom.get(key, 1)\<close> gives: 1 for a missing key, the value when it is an
  integer, none for a value that is not an integer.
\<close>

definition int_attr :: "attrs \<Rightarrow> string \<Rightarrow> int option" where
  "int_attr a key =
     (case a key of None \<Rightarrow> Some 1 | Some (PInt i) \<Rightarrow> Some i | Some v \<Rightarrow> None)"

text \<open>Every atom's resid and charge group, where present, is an integer.\<close>

definition integer_residues :: "('k, 'z) molecule_scheme \<Rightarrow> bool" where
  "integer_residues m \<longleftrightarrow>
     (\<forall>(k, a) \<in> set (nodes m).
        int_attr a ''resid'' \<noteq> None \<and> int_attr a ''charge_group'' \<noteq> None)"

text \<open>
  No atom has an attribute named as a positional parameter of \<open>add_node\<close>.
\<close>

definition keyword_free :: "('k, 'z) molecule_scheme \<Rightarrow> bool" where
  "keyword_free m \<longleftrightarrow>
     (\<forall>(k, a) \<in> set (nodes m). a ''node_for_adding'' = None \<and> a ''self'' = None)"

text \<open>
  The attributes of an atom with integer resid and charge group after a shift by \<open>r\<close> and
  \<open>c\<close>.
\<close>

definition merged_atom :: "int \<Rightarrow> int \<Rightarrow> attrs \<Rightarrow> attrs" where
  "merged_atom r c a =
     a(''resid'' \<mapsto> PInt (the (int_attr a ''resid'') + r),
       ''charge_group'' \<mapsto> PInt (the (int_attr a ''charge_group'') + c))"

section \<open>Concrete molecules and blocks\<close>

text \<open>
  A molecule with atoms 1 and 2 and two bonds between them, the first without a version, the
  second with version 1.
\<close>

definition bonded_pair :: "int molecule" where
  "bonded_pair =
     \<lparr>nodes = [(1, Map.empty), (2, Map.empty)], edges = [],
      interactions =
        [(''bonds'',
          [\<lparr>atoms = [1, 2], parameters = [], meta = Map.empty\<rparr>,
           \<lparr>atoms = [1, 2], parameters = [PInt 5], meta = [''version'' \<mapsto> PInt 1]\<rparr>])],
      molecule_meta = Map.empty, force_field = None, nrexcl = None\<rparr>"

text \<open>A block with the four atoms a, b, c, d and no interaction.\<close>

definition four_atoms :: "string block" where
  "four_atoms =
     \<lparr>nodes = [(''a'', Map.empty), (''b'', Map.empty), (''c'', Map.empty), (''d'', Map.empty)],
      edges = [], interactions = [], molecule_meta = Map.empty, force_field = None,
      nrexcl = None, name = None\<rparr>"

text \<open>
  The molecules of the specification's example: A with atoms 1 and 2, both of resid 1, and B
  with the single atom x of resid 1.
\<close>

definition molecule_A :: "int molecule" where
  "molecule_A =
     \<lparr>nodes = [(1, [''resid'' \<mapsto> PInt 1]), (2, [''resid'' \<mapsto> PInt 1])], edges = [(1, 2)],
      interactions = [(''bonds'', [\<lparr>atoms = [1, 2], parameters = [], meta = Map.empty\<rparr>])],
      molecule_meta = Map.empty, force_field = Some ''ff-a'', nrexcl = Some 1\<rparr>"


text \<open>An empty molecule whose nrexcl is not set, and one whose nrexcl is 3.\<close>

definition empty_molecule :: "int molecule" where
  "empty_molecule =
     \<lparr>nodes = [], edges = [], interactions = [], molecule_meta = Map.empty,
      force_field = Some ''ff-a'', nrexcl = None\<rparr>"

text \<open>
  A molecule with the atoms x (resid 4, no charge group) and y (charge group 7, no resid),
  bonded.
\<close>

definition molecule_C :: "string molecule" where
  "molecule_C =
     \<lparr>nodes = [(''x'', [''resid'' \<mapsto> PInt 4]), (''y'', [''charge_group'' \<mapsto> PInt 7])],
      edges = [(''x'', ''y'')],
      interactions = [(''bonds'', [\<lparr>atoms = [''x'', ''y''], parameters = [], meta = Map.empty\<rparr>])],
      molecule_meta = Map.empty, force_field = Some ''ff-a'', nrexcl = Some 1\<rparr>"

definition empty_nrexcl_3 :: "int molecule" where
  "empty_nrexcl_3 =
     \<lparr>nodes = [], edges = [], interactions = [], molecule_meta = Map.empty,
      force_field = Some ''ff-a'', nrexcl = Some 3\<rparr>"

text \<open>Molecules like B with another force field, and with another nrexcl.\<close>

definition molecule_ff_b :: "string molecule" where
  "molecule_ff_b =
     \<lparr>nodes = [(''x'', [''resid'' \<mapsto> PInt 1])], edges = [], interactions = [],
      molecule_meta = Map.empty, force_field = Some ''ff-b'', nrexcl = Some 1\<rparr>"

definition molecule_nrexcl_2 :: "string molecule" where
  "molecule_nrexcl_2 =
     \<lparr>nodes = [(''x'', [''resid'' \<mapsto> PInt 1])], edges = [], interactions = [],
      molecule_meta = Map.empty, force_field = Some ''ff-a'', nrexcl = Some 2\<rparr>"


definition molecule_text_resid :: "string molecule" where
  "molecule_text_resid =
     \<lparr>nodes = [(''x'', [''resid'' \<mapsto> PStr ''A''])], edges = [], interactions = [],
      molecule_meta = Map.empty, force_field = Some ''ff-a'', nrexcl = Some 1\<rparr>"

definition molecule_keyword :: "string molecule" where
  "molecule_keyword =
     \<lparr>nodes = [(''x'', [''resid'' \<mapsto> PInt 1, ''node_for_adding'' \<mapsto> PInt 0])], edges = [],
      interactions = [], molecule_meta = Map.empty, force_field = Some ''ff-a'',
      nrexcl = Some 1\<rparr>"

text \<open>
  A molecule with one atom and one interaction on it, and the same molecule with the atom
  and the interaction copied to the new id 2.
\<close>

definition one_atom :: "int molecule" where
  "one_atom =
     \<lparr>nodes = [(1, [''resid'' \<mapsto> PInt 1])], edges = [],
      interactions = [(''bonds'', [\<lparr>atoms = [1], parameters = [], meta = Map.empty\<rparr>])],
      molecule_meta = Map.empty, force_field = None, nrexcl = None\<rparr>"

definition one_atom_merged :: "int molecule" where
  "one_atom_merged =
     \<lparr>nodes = [(1, [''resid'' \<mapsto> PInt 1]),
               (2, [''resid'' \<mapsto> PInt 2, ''charge_group'' \<mapsto> PInt 2])],
      edges = [],
      interactions =
        [(''bonds'', [\<lparr>atoms = [1], parameters = [], meta = Map.empty\<rparr>,
                      \<lparr>atoms = [2], parameters = [], meta = Map.empty\<rparr>])],
      molecule_meta = Map.empty, force_field = None, nrexcl = None\<rparr>"

text \<open>A molecule with no atom, and one with the named atoms 1 and 2.\<close>

definition no_atoms :: "int molecule" where
  "no_atoms =
     \<lparr>nodes = [], edges = [], interactions = [], molecule_meta = Map.empty,
      force_field = None, nrexcl = None\<rparr>"

definition typed_pair :: "int molecule" where
  "typed_pair =
     \<lparr>nodes = [(1, [''atomname'' \<mapsto> PStr ''BB'']), (2, [''atomname'' \<mapsto> PStr ''SC1''])],
      edges = [(1, 2)], interactions = [], molecule_meta = Map.empty, force_field = None,
      nrexcl = None\<rparr>"

text \<open>
  Interactions and a template for \<open>interaction_match\<close>: the template constrains the name of
  the first atom by equality and of the second by a \<open>Choice\<close>.
\<close>

definition bond_1_2 :: "int interaction" where
  "bond_1_2 = \<lparr>atoms = [1, 2], parameters = [PInt 5], meta = [''version'' \<mapsto> PInt 1]\<rparr>"

definition delete_bond_1_2 :: "int template_interaction" where
  "delete_bond_1_2 =
     DeleteInteraction [1, 2]
       [[(''atomname'', Plain (PStr ''BB''))],
        [(''atomname'', Predicate (Choice [PStr ''SC1'', PStr ''SC2'']))]]
       [] [(''version'', Plain (PInt 1))]"

definition bond_1 :: "int interaction" where
  "bond_1 = \<lparr>atoms = [1], parameters = [], meta = Map.empty\<rparr>"

section \<open>The predicates\<close>

lemma Choice_match_iff:
  "match (Choice values) attributes key \<longleftrightarrow>
     (\<exists>v. attributes key = Some v \<and> v \<in> set values)
     \<or> (attributes key = None \<and> PNone \<in> set values)"
  by (auto simp: dict_get_def split: option.splits)

lemma Choice_match_defined:
  "PNone \<notin> set values \<Longrightarrow>
     match (Choice values) attributes key \<longleftrightarrow> (\<exists>v. attributes key = Some v \<and> v \<in> set values)"
  by (auto simp: dict_get_def split: option.splits)

lemma Choice_match_examples:
  "\<not> match (Choice [PInt 1, PInt 2]) [''k'' \<mapsto> PInt 3] ''k''
   \<and> \<not> match (Choice [PInt 1, PInt 2]) Map.empty ''k''"
  by (simp add: dict_get_def)

text \<open>
  C5. \<open>Choice(values).match(attributes, key)\<close> is claimed to be true exactly when the key is
  present and its value is a member of \<open>values\<close>, and so false whenever the key is absent.
  The code tests \<open>node.get(key) in self.value\<close>, and \<open>get\<close> gives \<open>None\<close> for an absent key:
  with \<open>None\<close> among the values, an attribute that is not defined matches, against the
  docstring (the attribute is defined and in the list).
\<close>

theorem Choice_match_absent_key_None:
  "match (Choice [PNone]) Map.empty ''k'' = True"
  by (simp add: dict_get_def)

text \<open>
  C8. \<open>NotDefinedOrNot(value).match(attributes, key)\<close> is true exactly when the key is absent
  from the attributes or present with a value different from \<open>value\<close>. With \<open>None\<close> as the
  reference, an attribute explicitly set to \<open>None\<close> does not match, and an absent key does.
\<close>

theorem NotDefinedOrNot_match_iff:
  "(match (NotDefinedOrNot value) attributes key \<longleftrightarrow>
      (key \<notin> dom attributes \<or> (\<exists>v. attributes key = Some v \<and> v \<noteq> value)))
   \<and> \<not> match (NotDefinedOrNot PNone) (attributes(key \<mapsto> PNone)) key
   \<and> (key \<notin> dom attributes \<longrightarrow> match (NotDefinedOrNot PNone) attributes key)"
  by (auto split: option.splits)

theorem NotDefinedOrNot_match_witness:
  "match (NotDefinedOrNot (PInt 5)) Map.empty ''k''
   \<and> \<not> match (NotDefinedOrNot (PInt 5)) [''k'' \<mapsto> PInt 5] ''k''
   \<and> match (NotDefinedOrNot (PInt 5)) [''k'' \<mapsto> PInt 7] ''k''
   \<and> \<not> match (NotDefinedOrNot PNone) [''k'' \<mapsto> PNone] ''k''
   \<and> match (NotDefinedOrNot PNone) Map.empty ''k''"
  using NotDefinedOrNot_match_iff [of "PInt 5" Map.empty "''k''"]
        NotDefinedOrNot_match_iff [of "PInt 5" "[''k'' \<mapsto> PInt 5]" "''k''"]
        NotDefinedOrNot_match_iff [of "PInt 5" "[''k'' \<mapsto> PInt 7]" "''k''"]
        NotDefinedOrNot_match_iff [of PNone Map.empty "''k''"]
  by simp

section \<open>The arity check of the effectors\<close>

lemma effector_init_exact:
  "Some (length keys') = n_keys_asked c \<Longrightarrow>
     effector_init c keys' f = Inr \<lparr>effector_class = c, keys = keys', format = f\<rparr>"
  by (auto simp add: effector_init_def)

lemma effector_init_unchecked:
  "effector_init LinkParameterEffector keys' f
     = Inr \<lparr>effector_class = LinkParameterEffector, keys = keys', format = f\<rparr>"
  by (simp add: effector_init_def)

lemma effector_init_mismatch:
  "n_keys_asked c = Some n \<Longrightarrow> length keys' \<noteq> n \<Longrightarrow> effector_init c keys' f = Inl AttributeError"
  by (auto simp add: effector_init_def class_name_attribute_def)

text \<open>
  C4. Constructing a fixed-arity effector with a key list of another length is claimed to
  fail with a ValueError. The raise statement formats its message with
  \<open>self.__class__.name\<close>, an attribute no class has, so the construction of
  \<open>ParamDistance\<close> with one key ends in an AttributeError before the ValueError exists (and
  so does every other mismatch, \<open>effector_init_mismatch\<close>). A key list of the exact length is
  accepted (\<open>effector_init_exact\<close>).
\<close>

theorem effector_init_ParamDistance_one_key:
  "effector_init ParamDistance [''a''] None = Inl AttributeError"
  by (simp add: effector_init_def class_name_attribute_def)

section \<open>The interaction registry\<close>

lemma registry_getitem_fst: "fst (registry_getitem t reg) = registry_get t reg"
  by (simp add: registry_getitem_def registry_get_def split: option.splits)

lemma registry_get_getitem_snd:
  "registry_get t' (snd (registry_getitem t reg)) = registry_get t' reg"
  by (auto simp: registry_getitem_def registry_get_def map_add_def split: option.splits)

lemma registry_get_update:
  "registry_get t' (AList.update t l reg) = (if t' = t then l else registry_get t' reg)"
  by (simp add: registry_get_def update_conv')

lemma find_has_node_None:
  "find (\<lambda>atom. \<not> has_node self atom) as = None \<longleftrightarrow> (\<forall>atom \<in> set as. has_node self atom)"
  by (auto simp add: find_None_iff)

text \<open>
  C9. \<open>add_interaction(type, atoms, parameters, meta)\<close> fails with the ValueError of an
  unknown atom when some atom is not a node of the molecule, and then leaves the molecule,
  its registry included, as it was. When every atom is a node it appends one entry
  \<open>Interaction(tuple(atoms), parameters, meta)\<close>, with the empty dictionary for a missing
  \<open>meta\<close>, at the end of the list of the type; the lists of the other types, the earlier
  entries of this one and the rest of the molecule stay as they were.
\<close>

theorem add_interaction_atomic:
  "(\<not> (\<forall>atom \<in> set atoms'. has_node self atom) \<longrightarrow>
      add_interaction type' atoms' parameters' meta' self
        = (Inl AtomNotFound, self))
   \<and> ((\<forall>atom \<in> set atoms'. has_node self atom) \<longrightarrow>
      (\<exists>self'. add_interaction type' atoms' parameters' meta' self = (Inr (), self')
        \<and> registry_get type' (interactions self')
            = registry_get type' (interactions self)
              @ [\<lparr>atoms = atoms', parameters = parameters',
                  meta = (case meta' of None \<Rightarrow> Map.empty | Some m \<Rightarrow> m)\<rparr>]
        \<and> (\<forall>t. t \<noteq> type' \<longrightarrow>
              registry_get t (interactions self') = registry_get t (interactions self))
        \<and> self' = self\<lparr>interactions := interactions self'\<rparr>))"
proof (cases "\<forall>atom \<in> set atoms'. has_node self atom")
  case True
  then have f: "find (\<lambda>atom. \<not> has_node self atom) atoms' = None"
    by (simp add: find_has_node_None)
  obtain l reg where g: "registry_getitem type' (interactions self) = (l, reg)"
    by (cases "registry_getitem type' (interactions self)")
  have l: "l = registry_get type' (interactions self)"
    using g registry_getitem_fst [of type' "interactions self"] by simp
  have reg: "\<And>t. registry_get t reg = registry_get t (interactions self)"
    using g registry_get_getitem_snd [of _ type' "interactions self"] by simp
  show ?thesis
    using True by (simp add: add_interaction_def f g l [symmetric] registry_get_update reg)
next
  case False
  then obtain atom where "find (\<lambda>atom. \<not> has_node self atom) atoms' = Some atom"
    using find_has_node_None [of self atoms']
    by (cases "find (\<lambda>atom. \<not> has_node self atom) atoms'") auto
  then show ?thesis using False by (simp add: add_interaction_def)
qed

theorem add_interaction_atomic_witness:
  "add_interaction ''bonds'' [1, 3] [PInt 7] None bonded_pair
     = (Inl AtomNotFound, bonded_pair)
   \<and> fst (add_interaction ''angles'' [2, 1] [PInt 7] None bonded_pair) = Inr ()
   \<and> registry_get ''angles''
        (interactions (snd (add_interaction ''angles'' [2, 1] [PInt 7] None bonded_pair)))
       = [\<lparr>atoms = [2, 1], parameters = [PInt 7], meta = Map.empty\<rparr>]
   \<and> registry_get ''bonds''
        (interactions (snd (add_interaction ''angles'' [2, 1] [PInt 7] None bonded_pair)))
       = registry_get ''bonds'' (interactions bonded_pair)"
  using add_interaction_atomic [of "[1, 3]" bonded_pair "''bonds''" "[PInt 7]" None]
        add_interaction_atomic [of "[2, 1]" bonded_pair "''angles''" "[PInt 7]" None]
  by (auto simp add: bonded_pair_def has_node_def registry_get_def)

lemma remove_interaction_loop_None:
  "remove_interaction_loop as i l = None \<longleftrightarrow>
     (\<forall>e \<in> set l. \<not> (atoms e = as \<and> version_true e))"
  by (induction l arbitrary: i) auto

lemma remove_interaction_loop_Some:
  "remove_interaction_loop as i l = Some idx \<Longrightarrow>
     \<exists>pre e post. l = pre @ e # post \<and> idx = i + length pre
        \<and> atoms e = as \<and> version_true e
        \<and> (\<forall>x \<in> set pre. \<not> (atoms x = as \<and> version_true x))"
proof (induction l arbitrary: i)
  case Nil
  then show ?case by simp
next
  case (Cons x l)
  show ?case
  proof (cases "atoms x = as \<and> version_true x")
    case True
    with Cons.prems have "idx = i" by simp
    with True show ?thesis by (intro exI [of _ "[]"] exI [of _ x] exI [of _ l]) simp
  next
    case False
    with Cons.prems have "remove_interaction_loop as (Suc i) l = Some idx" by auto
    from Cons.IH [OF this] obtain pre e post where
      p: "l = pre @ e # post" "idx = Suc i + length pre" "atoms e = as" "version_true e"
         "\<forall>x \<in> set pre. \<not> (atoms x = as \<and> version_true x)"
      by blast
    with False show ?thesis
      by (intro exI [of _ "x # pre"] exI [of _ e] exI [of _ post]) auto
  qed
qed

lemma list_del_middle: "list_del (length pre) (pre @ e # post) = pre @ post"
  by (simp add: list_del_def)

text \<open>
  C2. \<open>remove_interaction(type, atoms)\<close> removes an entry only when its atoms equal \<open>atoms\<close>
  and its \<open>meta.get('version', 0)\<close> is true: it succeeds exactly when the list of the type
  holds such an entry, and then deletes the first one; otherwise it fails with the KeyError
  of no match and the list is as before. An entry with the given atoms whose version is 0 or
  missing is therefore never removed: it is still in the list after the call.
\<close>

theorem remove_interaction_version_check:
  assumes "remove_interaction type' atoms' version self = (res, self')"
  shows "(res = Inr () \<or> res = Inl KeyError)
    \<and> (res = Inr () \<longleftrightarrow>
         (\<exists>e \<in> set (registry_get type' (interactions self)). atoms e = atoms' \<and> version_true e))
    \<and> (res = Inl KeyError \<longrightarrow>
         registry_get type' (interactions self') = registry_get type' (interactions self))
    \<and> (res = Inr () \<longrightarrow>
         (\<exists>pre e post.
            registry_get type' (interactions self) = pre @ e # post
            \<and> registry_get type' (interactions self') = pre @ post
            \<and> atoms e = atoms' \<and> version_true e
            \<and> (\<forall>x \<in> set pre. \<not> (atoms x = atoms' \<and> version_true x))))
    \<and> (\<forall>e \<in> set (registry_get type' (interactions self)).
          atoms e = atoms' \<and> \<not> version_true e
          \<longrightarrow> e \<in> set (registry_get type' (interactions self')))"
proof -
  obtain l reg where g: "registry_getitem type' (interactions self) = (l, reg)"
    by (cases "registry_getitem type' (interactions self)")
  have l: "l = registry_get type' (interactions self)"
    using g registry_getitem_fst [of type' "interactions self"] by simp
  have reg: "registry_get type' reg = l"
    using g l registry_get_getitem_snd [of type' type' "interactions self"] by simp
  show ?thesis
  proof (cases "remove_interaction_loop atoms' 0 l")
    case None
    then have r: "res = Inl KeyError" "self' = self\<lparr>interactions := reg\<rparr>"
      using assms g by (simp_all add: remove_interaction_def)
    have "\<forall>e \<in> set l. \<not> (atoms e = atoms' \<and> version_true e)"
      using None remove_interaction_loop_None [of atoms' 0 l] by simp
    then show ?thesis using r reg l by auto
  next
    case (Some idx)
    then have r: "res = Inr ()"
      "self' = self\<lparr>interactions := AList.update type' (list_del idx l) reg\<rparr>"
      using assms g by (simp_all add: remove_interaction_def)
    from remove_interaction_loop_Some [OF Some] obtain pre e post where
      p: "l = pre @ e # post" "idx = length pre" "atoms e = atoms'" "version_true e"
         "\<forall>x \<in> set pre. \<not> (atoms x = atoms' \<and> version_true x)"
      by auto
    have new: "registry_get type' (interactions self') = pre @ post"
      using r p by (simp add: registry_get_update list_del_middle)
    have c1: "\<exists>e \<in> set (registry_get type' (interactions self)). atoms e = atoms' \<and> version_true e"
      using p l by auto
    have c2: "\<exists>pre e post.
            registry_get type' (interactions self) = pre @ e # post
            \<and> registry_get type' (interactions self') = pre @ post
            \<and> atoms e = atoms' \<and> version_true e
            \<and> (\<forall>x \<in> set pre. \<not> (atoms x = atoms' \<and> version_true x))"
      using p l new by (intro exI [of _ pre] exI [of _ e] exI [of _ post]) simp
    have c3: "\<forall>e \<in> set (registry_get type' (interactions self)).
          atoms e = atoms' \<and> \<not> version_true e
          \<longrightarrow> e \<in> set (registry_get type' (interactions self'))"
      using p l new by auto
    show ?thesis using r(1) c1 c2 c3 by simp
  qed
qed

theorem remove_interaction_version_check_witness:
  "fst (remove_interaction ''bonds'' [1, 2] (PInt 0) bonded_pair) = Inr ()
   \<and> \<lparr>atoms = [1, 2], parameters = [], meta = Map.empty\<rparr>
       \<in> set (registry_get ''bonds''
                (interactions (snd (remove_interaction ''bonds'' [1, 2] (PInt 0) bonded_pair))))
   \<and> fst (remove_interaction ''bonds'' [1, 2] (PInt 0)
            (snd (remove_interaction ''bonds'' [1, 2] (PInt 0) bonded_pair))) = Inl KeyError"
proof -
  let ?r1 = "remove_interaction ''bonds'' [1, 2] (PInt 0) bonded_pair"
  let ?r2 = "remove_interaction ''bonds'' [1, 2] (PInt 0) (snd ?r1)"
  let ?e0 = "\<lparr>atoms = [1::int, 2], parameters = [], meta = Map.empty\<rparr>"
  let ?e1 = "\<lparr>atoms = [1::int, 2], parameters = [PInt 5], meta = [''version'' \<mapsto> PInt 1]\<rparr>"
  have old: "registry_get ''bonds'' (interactions bonded_pair) = [?e0, ?e1]"
    by (simp add: bonded_pair_def registry_get_def)
  have v0: "\<not> version_true ?e0" and v1: "version_true ?e1"
    by (simp_all add: version_true_def dict_get_default_def)
  have h1: "?r1 = (fst ?r1, snd ?r1)" by simp
  note t1 = remove_interaction_version_check [OF h1]
  have a: "fst ?r1 = Inr ()" using t1 old v1 by simp
  have b: "?e0 \<in> set (registry_get ''bonds'' (interactions (snd ?r1)))"
    using t1 old v0 by simp
  from t1 a obtain pre e post where
    p: "[?e0, ?e1] = pre @ e # post"
       "registry_get ''bonds'' (interactions (snd ?r1)) = pre @ post" "version_true e"
    using old by auto
  have "e = ?e1"
    using p(1) p(3) v0 by (cases pre; cases "tl pre") auto
  then have new: "registry_get ''bonds'' (interactions (snd ?r1)) = [?e0]"
    using p(1) p(2) by (cases pre; cases "tl pre") auto
  have h2: "?r2 = (fst ?r2, snd ?r2)" by simp
  note t2 = remove_interaction_version_check [OF h2]
  have c: "fst ?r2 = Inl KeyError" using t2 new v0 by auto
  show ?thesis using a b c by simp
qed

section \<open>Dihedrals and impropers around a bond\<close>

lemma dihedral_centers_raises: "l \<noteq> [] \<Longrightarrow> dihedral_centers l = Inl TypeError"
  by (cases l) (simp_all add: interaction_getitem_def)

lemma has_dihedral_around_eq:
  "has_dihedral_around center self =
     (if registry_get ''dihedrals'' (interactions self) = [] then Inr False else Inl TypeError)"
  by (simp add: has_dihedral_around_def dihedral_centers_raises)

lemma has_improper_around_iff:
  "has_improper_around center self =
     Inr (\<exists>dih \<in> set (registry_get ''impropers'' (interactions self)).
            butlast (tl (atoms dih)) = center)"
  by (auto simp add: has_improper_around_def slice_1_m1_def)

lemma has_improper_around_example:
  "has_improper_around [''b'', ''c'']
     (snd (add_interaction ''impropers'' [''a'', ''b'', ''c'', ''d''] [] None four_atoms))
   = Inr True"
  by (simp add: has_improper_around_def add_interaction_def four_atoms_def has_node_def
      registry_getitem_def registry_get_def slice_1_m1_def)

text \<open>
  C3. \<open>has_dihedral_around(center)\<close> is claimed to return True exactly when a recorded
  dihedral has \<open>center\<close> as its two central atoms. The method subscripts each entry with
  \<open>dih['atoms']\<close>, and the entries that \<open>add_interaction\<close> records are named tuples: on the
  block with the dihedral a-b-c-d the call for the bond (b, c) raises TypeError instead of
  returning True. With no dihedral recorded it returns False (\<open>has_dihedral_around_eq\<close>);
  \<open>has_improper_around\<close>, which reads \<open>dih.atoms\<close>, returns True on the same data.
\<close>

theorem has_dihedral_around_recorded_dihedral:
  "has_dihedral_around [''b'', ''c'']
     (snd (add_interaction ''dihedrals'' [''a'', ''b'', ''c'', ''d''] [] None four_atoms))
   = Inl TypeError"
  by (simp add: has_dihedral_around_def add_interaction_def four_atoms_def has_node_def
      registry_getitem_def registry_get_def interaction_getitem_def)

section \<open>Merging molecules\<close>

lemma py_add_int_attr:
  "int_attr a key = Some i \<Longrightarrow> py_add (dict_get_default a key (PInt 1)) (PInt r) = Inr (PInt (i + r))"
  by (auto simp: int_attr_def dict_get_default_def split: option.splits pyval.splits)

lemma update_fresh: "k \<notin> set (map fst al) \<Longrightarrow> AList.update k v al = al @ [(k, v)]"
  by (induction al) auto

lemma add_node_fresh:
  "n \<notin> set (map fst (nodes self)) \<Longrightarrow> add_node n attr self = self\<lparr>nodes := nodes self @ [(n, attr)]\<rparr>"
  by (simp add: add_node_def has_node_def)

lemma merge_atoms_ok:
  assumes "\<forall>(k, a) \<in> set ns. int_attr a ''resid'' \<noteq> None \<and> int_attr a ''charge_group'' \<noteq> None"
    and "distinct (map fst ns)"
    and "set (map fst ns) \<inter> set (map fst corr) = {}"
    and "\<forall>k \<in> set (map fst (nodes self)). k < idx"
    and "\<forall>(k, a) \<in> set ns. a ''node_for_adding'' = None \<and> a ''self'' = None"
  shows "merge_atoms (PInt r) (PInt c) idx ns corr self =
     (Inr (corr @ zip (map fst ns) [idx .. idx + int (length ns) - 1]),
      self\<lparr>nodes := nodes self
           @ map (\<lambda>(i, k, a). (i, merged_atom r c a)) (zip [idx .. idx + int (length ns) - 1] ns)\<rparr>)"
  using assms
proof (induction ns arbitrary: idx corr self)
  case Nil
  then show ?case by simp
next
  case (Cons x ns)
  obtain k a where x: "x = (k, a)" by (cases x)
  from Cons.prems(1) x obtain rid cg where
    i: "int_attr a ''resid'' = Some rid" "int_attr a ''charge_group'' = Some cg"
    by auto
  from Cons.prems(5) x have kw: "a ''node_for_adding'' = None" "a ''self'' = None"
    by auto
  let ?corr = "AList.update k idx corr"
  let ?self = "add_node idx (a(''resid'' \<mapsto> PInt (rid + r), ''charge_group'' \<mapsto> PInt (cg + c))) self"
  have fresh: "idx \<notin> set (map fst (nodes self))"
    using Cons.prems(4) by auto
  have self1: "?self = self\<lparr>nodes := nodes self @ [(idx, merged_atom r c a)]\<rparr>"
    using fresh by (simp add: add_node_fresh merged_atom_def i)
  have corr1: "?corr = corr @ [(k, idx)]"
    using Cons.prems(3) x by (simp add: update_fresh)
  have p1: "\<forall>(k, a) \<in> set ns. int_attr a ''resid'' \<noteq> None \<and> int_attr a ''charge_group'' \<noteq> None"
    using Cons.prems(1) by simp
  have p2: "distinct (map fst ns)" using Cons.prems(2) by simp
  have p3: "set (map fst ns) \<inter> set (map fst ?corr) = {}"
    using Cons.prems(2,3) x corr1 by auto
  have p4: "\<forall>k \<in> set (map fst (nodes ?self)). k < idx + 1"
    using Cons.prems(4) self1 by auto
  have p5: "\<forall>(k, a) \<in> set ns. a ''node_for_adding'' = None \<and> a ''self'' = None"
    using Cons.prems(5) by simp
  have step: "merge_atoms (PInt r) (PInt c) idx (x # ns) corr self
      = merge_atoms (PInt r) (PInt c) (idx + 1) ns ?corr ?self"
    by (simp add: x py_add_int_attr [OF i(1)] py_add_int_attr [OF i(2)]
        add_node_keywords_def kw)
  have up: "[idx .. idx + int (length (x # ns)) - 1] = idx # [idx + 1 .. idx + 1 + int (length ns) - 1]"
    by (simp add: upto_rec1 [of idx] add.commute add.left_commute)
  show ?case
    unfolding step Cons.IH [OF p1 p2 p3 p4 p5] up
    by (simp add: corr1 self1 x)
qed


lemma correspondence_atoms_ok:
  "set as \<subseteq> set (map fst corr) \<Longrightarrow>
     \<exists>idxs. correspondence_atoms corr as = Inr idxs \<and> set idxs \<subseteq> set (map snd corr)"
proof (induction as)
  case Nil
  then show ?case by simp
next
  case (Cons x as)
  then obtain idxs where i: "correspondence_atoms corr as = Inr idxs" "set idxs \<subseteq> set (map snd corr)"
    by auto
  from Cons.prems have "x \<in> fst ` set corr" by auto
  then obtain v where v: "map_of corr x = Some v"
    by (cases "map_of corr x") (auto simp: map_of_eq_None_iff)
  then have "v \<in> set (map snd corr)"
    by (auto dest: map_of_SomeD intro: rev_image_eqI)
  with i v show ?case by simp
qed

lemma add_interaction_ok:
  assumes "\<forall>atom \<in> set as. has_node self atom"
  shows "\<exists>self'. add_interaction t as p m self = (Inr (), self')
           \<and> self' = self\<lparr>interactions := interactions self'\<rparr>"
proof -
  have f: "find (\<lambda>atom. \<not> has_node self atom) as = None"
    using assms by (auto simp add: find_None_iff)
  show ?thesis
    by (simp add: add_interaction_def f split: prod.splits)
qed

lemma merge_interaction_list_ok:
  assumes "\<forall>i \<in> set l. set (atoms i) \<subseteq> set (map fst corr)"
    and "set (map snd corr) \<subseteq> set (map fst (nodes self))"
  shows "\<exists>self'. merge_interaction_list corr n l self = (Inr (), self')
           \<and> self' = self\<lparr>interactions := interactions self'\<rparr>"
  using assms
proof (induction l arbitrary: self)
  case Nil
  then show ?case by simp
next
  case (Cons x l)
  from Cons.prems(1) obtain idxs where
    i: "correspondence_atoms corr (atoms x) = Inr idxs" "set idxs \<subseteq> set (map snd corr)"
    using correspondence_atoms_ok [of "atoms x" corr] by auto
  have "\<forall>atom \<in> set idxs. has_node self atom"
    using i(2) Cons.prems(2) by (auto simp: has_node_def)
  from add_interaction_ok [OF this] obtain self1 where
    s1: "add_interaction n idxs (parameters x) (Some (meta x)) self = (Inr (), self1)"
        "self1 = self\<lparr>interactions := interactions self1\<rparr>"
    by blast
  have n1: "nodes self1 = nodes self" by (subst s1(2)) simp
  from Cons.IH [of self1] Cons.prems n1 obtain self' where
    s2: "merge_interaction_list corr n l self1 = (Inr (), self')"
        "self' = self1\<lparr>interactions := interactions self'\<rparr>"
    by auto
  have "self' = self\<lparr>interactions := interactions self'\<rparr>"
    by (subst s2(2), subst s1(2)) simp
  then show ?case using i(1) s1(1) s2(1) by simp
qed

lemma merge_interactions_ok:
  assumes "\<forall>(t, l) \<in> set reg. \<forall>i \<in> set l. set (atoms i) \<subseteq> set (map fst corr)"
    and "set (map snd corr) \<subseteq> set (map fst (nodes self))"
  shows "\<exists>self'. merge_interactions corr reg self = (Inr (), self')
           \<and> self' = self\<lparr>interactions := interactions self'\<rparr>"
  using assms
proof (induction reg arbitrary: self)
  case Nil
  then show ?case by simp
next
  case (Cons x reg)
  obtain n l where x: "x = (n, l)" by (cases x)
  have "\<forall>i \<in> set l. set (atoms i) \<subseteq> set (map fst corr)"
    using Cons.prems(1) x by auto
  from merge_interaction_list_ok [OF this Cons.prems(2)] obtain self1 where
    s1: "merge_interaction_list corr n l self = (Inr (), self1)"
        "self1 = self\<lparr>interactions := interactions self1\<rparr>"
    by blast
  have n1: "nodes self1 = nodes self" by (subst s1(2)) simp
  from Cons.IH [of self1] Cons.prems n1 obtain self' where
    s2: "merge_interactions corr reg self1 = (Inr (), self')"
        "self' = self1\<lparr>interactions := interactions self'\<rparr>"
    by auto
  have "self' = self\<lparr>interactions := interactions self'\<rparr>"
    by (subst s2(2), subst s1(2)) simp
  then show ?case using x s1(1) s2(1) by simp
qed

lemma add_edge_nodes:
  "has_node self u \<Longrightarrow> has_node self v \<Longrightarrow>
     add_edge u v self = self\<lparr>edges := edges (add_edge u v self)\<rparr>"
  by (simp add: add_edge_def Let_def)

lemma merge_edges_ok:
  assumes "\<forall>(u, v) \<in> set es. u \<in> set (map fst corr) \<and> v \<in> set (map fst corr)"
    and "set (map snd corr) \<subseteq> set (map fst (nodes self))"
  shows "\<exists>self'. merge_edges corr es self = (Inr (), self')
           \<and> self' = self\<lparr>edges := edges self'\<rparr>"
  using assms
proof (induction es arbitrary: self)
  case Nil
  then show ?case by simp
next
  case (Cons x es)
  obtain u v where x: "x = (u, v)" by (cases x)
  from Cons.prems(1) x have "u \<in> fst ` set corr" "v \<in> fst ` set corr" by auto
  then obtain c1 c2 where c: "map_of corr u = Some c1" "map_of corr v = Some c2"
    by (cases "map_of corr u"; cases "map_of corr v") (auto simp: map_of_eq_None_iff)
  then have "c1 \<in> set (map snd corr)" "c2 \<in> set (map snd corr)"
    by (auto dest!: map_of_SomeD intro: rev_image_eqI)
  then have h: "has_node self c1" "has_node self c2"
    using Cons.prems(2) by (auto simp: has_node_def)
  let ?self1 = "if c1 \<noteq> c2 then add_edge c1 c2 self else self"
  have s1: "?self1 = self\<lparr>edges := edges ?self1\<rparr>"
    using add_edge_nodes [OF h] by simp
  have n1: "nodes ?self1 = nodes self" by (subst s1) simp
  from Cons.IH [of ?self1] Cons.prems n1 obtain self' where
    s2: "merge_edges corr es ?self1 = (Inr (), self')"
        "self' = ?self1\<lparr>edges := edges self'\<rparr>"
    by auto
  have "self' = self\<lparr>edges := edges self'\<rparr>"
    by (subst s2(2), subst s1) simp
  then show ?case using x c s2(1) by simp
qed



lemma map_fst_zip_ids:
  "length xs = length ys \<Longrightarrow> map fst (map (\<lambda>(i, k, a). (i, f a)) (zip xs ys)) = xs"
  by (induction xs ys rule: list_induct2) auto

lemma merge_molecule_ok:
  assumes ff: "force_field self = force_field other"
    and nr: "nrexcl self = nrexcl other"
    and off: "merge_offsets (nodes self) = Inr (offset, PInt r, PInt c)"
    and le: "\<forall>k \<in> set (map fst (nodes self)). k \<le> offset"
    and wf: "well_formed other"
    and ints: "integer_residues other"
    and kw: "keyword_free other"
  shows "\<exists>self'. merge_molecule self other =
            (Inr (zip (map fst (nodes other)) [offset + 1 .. offset + int (length (nodes other))]), self')
          \<and> nodes self' = nodes self
               @ map (\<lambda>(i, k, a). (i, merged_atom r c a))
                   (zip [offset + 1 .. offset + int (length (nodes other))] (nodes other))
          \<and> nrexcl self' = nrexcl other"
proof -
  let ?ns = "nodes other"
  let ?ids = "[offset + 1 .. offset + int (length ?ns)]"
  let ?corr = "zip (map fst ?ns) ?ids"
  let ?self2 = "self\<lparr>nodes := nodes self @ map (\<lambda>(i, k, a). (i, merged_atom r c a)) (zip ?ids ?ns)\<rparr>"
  have a1: "\<forall>(k, a) \<in> set ?ns. int_attr a ''resid'' \<noteq> None \<and> int_attr a ''charge_group'' \<noteq> None"
    using ints by (simp add: integer_residues_def)
  have a2: "distinct (map fst ?ns)" using wf by (simp add: well_formed_def)
  have a4: "\<forall>k \<in> set (map fst (nodes self)). k < offset + 1" using le by auto
  have a5: "\<forall>(k, a) \<in> set ?ns. a ''node_for_adding'' = None \<and> a ''self'' = None"
    using kw by (simp add: keyword_free_def)
  have ids: "[offset + 1 .. offset + 1 + int (length ?ns) - 1] = ?ids"
    by (simp add: add.commute add.left_commute)
  have atoms_ok: "merge_atoms (PInt r) (PInt c) (offset + 1) ?ns [] self = (Inr ?corr, ?self2)"
    using merge_atoms_ok [OF a1 a2 _ a4 a5, of "[]" r c] by (simp add: ids)
  have len: "length ?ids = length ?ns" by simp
  have keys: "map fst ?corr = map fst ?ns" using len by simp
  have vals: "map snd ?corr = ?ids" using len by simp
  have new_keys: "map fst (map (\<lambda>(i, k, a). (i, merged_atom r c a)) (zip ?ids ?ns)) = ?ids"
    using len by (rule map_fst_zip_ids)
  have b2: "set (map snd ?corr) \<subseteq> set (map fst (nodes ?self2))"
    unfolding vals using new_keys by simp
  have b1: "\<forall>(t, l) \<in> set (interactions other). \<forall>i \<in> set l. set (atoms i) \<subseteq> set (map fst ?corr)"
    unfolding keys using wf by (simp add: well_formed_def)
  from merge_interactions_ok [OF b1 b2] obtain self3 where
    s3: "merge_interactions ?corr (interactions other) ?self2 = (Inr (), self3)"
        "self3 = ?self2\<lparr>interactions := interactions self3\<rparr>"
    by blast
  have n3: "nodes self3 = nodes ?self2" by (subst s3(2)) simp
  have c1: "\<forall>(u, v) \<in> set (edges other). u \<in> set (map fst ?corr) \<and> v \<in> set (map fst ?corr)"
    unfolding keys using wf by (simp add: well_formed_def)
  have c2: "set (map snd ?corr) \<subseteq> set (map fst (nodes self3))"
    using b2 n3 by simp
  from merge_edges_ok [OF c1 c2] obtain self4 where
    s4: "merge_edges ?corr (edges other) self3 = (Inr (), self4)"
        "self4 = self3\<lparr>edges := edges self4\<rparr>"
    by blast
  have n4: "nodes self4 = nodes ?self2" by (subst s4(2)) (simp add: n3)
  have r4: "nrexcl self4 = nrexcl self" by (subst s4(2), subst s3(2)) simp
  have same: "self\<lparr>nrexcl := nrexcl other\<rparr> = self"
    unfolding nr [symmetric] by simp
  have self1: "(if nrexcl self = None \<and> nodes self = [] then self\<lparr>nrexcl := nrexcl other\<rparr> else self) = self"
    using same by simp
  have "merge_molecule self other = (Inr ?corr, self4)"
    unfolding merge_molecule_def Let_def self1
    using ff nr off atoms_ok s3(1) s4(1) by simp
  then show ?thesis using n4 r4 nr by simp
qed








text \<open>
  The other conditions of the theorem are needed as well. An attribute of \<open>other\<close> named
  \<open>node_for_adding\<close> makes the call of \<open>add_node\<close> a TypeError, and A merged into itself
  ends with a RuntimeError after its first atom has been copied to the new node 3. A molecule
  of one atom merged into itself gets past the first loop and ends with a KeyError in the
  second, on the interaction that the loop itself has appended.
\<close>

lemma merge_molecule_keyword_attribute:
  "merge_molecule molecule_A molecule_keyword = (Inl TypeError, molecule_A)"
  by (simp add: merge_molecule_def merge_offsets_def molecule_A_def molecule_keyword_def
      dict_get_default_def add_node_keywords_def)

lemma merge_molecule_itself_two_atoms:
  "merge_molecule_itself molecule_A =
     Some (Inl RuntimeError,
           molecule_A\<lparr>nodes := nodes molecule_A
             @ [(3, [''resid'' \<mapsto> PInt 2, ''charge_group'' \<mapsto> PInt 2])]\<rparr>)"
  by (simp add: merge_molecule_itself_def merge_offsets_def molecule_A_def
      dict_get_default_def add_node_keywords_def add_node_def has_node_def)

lemma merge_molecule_itself_one_atom:
  "merge_molecule_itself one_atom = Some (Inl KeyError, one_atom_merged)"
proof -
  let ?s0 = "one_atom\<lparr>nodes := nodes one_atom
      @ [(2, [''resid'' \<mapsto> PInt 2, ''charge_group'' \<mapsto> PInt 2])]\<rparr>"
  have second: "merge_interaction_list_itself [(1, 2)] ''bonds'' (Suc 0) one_atom_merged
      = Some (Inl KeyError, one_atom_merged)"
    by (subst merge_interaction_list_itself.simps)
      (simp add: one_atom_merged_def registry_get_def)
  have add: "add_interaction ''bonds'' [2] [] (Some Map.empty) ?s0 = (Inr (), one_atom_merged)"
    by (simp add: add_interaction_def one_atom_def one_atom_merged_def has_node_def
        registry_getitem_def)
  have first: "merge_interaction_list_itself [(1, 2)] ''bonds'' 0 ?s0
      = Some (Inl KeyError, one_atom_merged)"
    by (subst merge_interaction_list_itself.simps)
      (simp add: one_atom_def registry_get_def add [unfolded one_atom_def, simplified] second)
  have atoms: "merge_atoms_itself (PInt 1) (PInt 1) 2 False (nodes one_atom) [] one_atom
      = (Inr [(1, 2)], ?s0)"
    by (simp add: one_atom_def dict_get_default_def add_node_keywords_def add_node_def
        has_node_def)
  have off: "merge_offsets (nodes one_atom) = Inr (1, PInt 1, PInt 1)"
    by (simp add: merge_offsets_def one_atom_def dict_get_default_def)
  have names: "map fst (interactions one_atom) = [''bonds'']"
    by (simp add: one_atom_def)
  show ?thesis
    unfolding merge_molecule_itself_def off
    by (simp add: atoms names first)
qed

lemma merge_molecule_adopts:
  assumes "force_field self = force_field other" and "nrexcl self = None" and "nodes self = []"
  shows "merge_molecule self other = merge_molecule (self\<lparr>nrexcl := nrexcl other\<rparr>) other"
  using assms by (simp add: merge_molecule_def)

lemma merged_atom_0:
  assumes "int_attr a ''resid'' \<noteq> None" and "int_attr a ''charge_group'' \<noteq> None"
  shows "merged_atom 0 0 a =
     a(''resid'' \<mapsto> (case a ''resid'' of None \<Rightarrow> PInt 1 | Some v \<Rightarrow> v),
       ''charge_group'' \<mapsto> (case a ''charge_group'' of None \<Rightarrow> PInt 1 | Some v \<Rightarrow> v))"
  using assms by (auto simp: merged_atom_def int_attr_def split: option.splits pyval.splits)

text \<open>
  C10. Let \<open>self\<close> be a molecule without atoms whose nrexcl is not set, and \<open>other\<close>
  another object than \<open>self\<close>, a well-formed molecule with the same force field whose
  resids and charge groups, where present, are integers and whose atoms have no attribute
  named \<open>node_for_adding\<close> or \<open>self\<close>. Then \<open>merge_molecule(self, other)\<close> succeeds with
  all offsets 0: the keys of \<open>other\<close> are mapped, in iteration order, to \<open>1, 2, ...\<close>,
  \<open>self\<close> takes the nrexcl of \<open>other\<close>, and its atoms are those of \<open>other\<close> under the new
  ids, each with its own resid and charge group where it has one and with 1 where it has
  none; no resid is shifted.
\<close>

theorem merge_into_empty_molecule:
  assumes "nodes self = []" and "force_field self = force_field other"
    and "nrexcl self = None" and "well_formed other" and "integer_residues other"
    and "keyword_free other"
  shows "\<exists>self'.
      merge_molecule self other =
        (Inr (zip (map fst (nodes other)) [1 .. int (length (nodes other))]), self')
      \<and> nrexcl self' = nrexcl other
      \<and> nodes self' =
          map (\<lambda>(i, k, a).
                 (i, a(''resid'' \<mapsto> (case a ''resid'' of None \<Rightarrow> PInt 1 | Some v \<Rightarrow> v),
                       ''charge_group'' \<mapsto>
                          (case a ''charge_group'' of None \<Rightarrow> PInt 1 | Some v \<Rightarrow> v))))
            (zip [1 .. int (length (nodes other))] (nodes other))"
proof -
  let ?self = "self\<lparr>nrexcl := nrexcl other\<rparr>"
  have ff: "force_field ?self = force_field other" using assms(2) by simp
  have nr: "nrexcl ?self = nrexcl other" by simp
  have off: "merge_offsets (nodes ?self) = Inr (0, PInt 0, PInt 0)"
    using assms(1) by (simp add: merge_offsets_def)
  have le: "\<forall>k \<in> set (map fst (nodes ?self)). k \<le> 0" using assms(1) by simp
  from merge_molecule_ok [OF ff nr off le assms(4) assms(5) assms(6)] obtain self' where
    m: "merge_molecule ?self other =
          (Inr (zip (map fst (nodes other)) [0 + 1 .. 0 + int (length (nodes other))]), self')"
       "nodes self' = nodes ?self
          @ map (\<lambda>(i, k, a). (i, merged_atom 0 0 a))
              (zip [0 + 1 .. 0 + int (length (nodes other))] (nodes other))"
       "nrexcl self' = nrexcl other"
    by blast
  have same: "map (\<lambda>(i, k, a). (i, merged_atom 0 0 a)) (zip [1 .. int (length (nodes other))] (nodes other))
      = map (\<lambda>(i, k, a).
                 (i, a(''resid'' \<mapsto> (case a ''resid'' of None \<Rightarrow> PInt 1 | Some v \<Rightarrow> v),
                       ''charge_group'' \<mapsto>
                          (case a ''charge_group'' of None \<Rightarrow> PInt 1 | Some v \<Rightarrow> v))))
            (zip [1 .. int (length (nodes other))] (nodes other))"
  proof (rule map_cong [OF refl])
    fix x assume "x \<in> set (zip [1 .. int (length (nodes other))] (nodes other))"
    then have "(fst x, snd x) \<in> set (zip [1 .. int (length (nodes other))] (nodes other))"
      by simp
    then have "snd x \<in> set (nodes other)" by (rule set_zip_rightD)
    then have "int_attr (snd (snd x)) ''resid'' \<noteq> None
        \<and> int_attr (snd (snd x)) ''charge_group'' \<noteq> None"
      using assms(5) by (auto simp: integer_residues_def split_def)
    then show "(case x of (i, k, a) \<Rightarrow> (i, merged_atom 0 0 a))
       = (case x of (i, k, a) \<Rightarrow>
                 (i, a(''resid'' \<mapsto> (case a ''resid'' of None \<Rightarrow> PInt 1 | Some v \<Rightarrow> v),
                       ''charge_group'' \<mapsto>
                          (case a ''charge_group'' of None \<Rightarrow> PInt 1 | Some v \<Rightarrow> v))))"
      using merged_atom_0 [of "snd (snd x)"] by (simp add: split_def)
  qed
  have "merge_molecule self other =
          (Inr (zip (map fst (nodes other)) [1 .. int (length (nodes other))]), self')"
    using m(1) merge_molecule_adopts [OF assms(2) assms(3) assms(1), of ] by simp
  moreover have "nodes self' =
          map (\<lambda>(i, k, a).
                 (i, a(''resid'' \<mapsto> (case a ''resid'' of None \<Rightarrow> PInt 1 | Some v \<Rightarrow> v),
                       ''charge_group'' \<mapsto>
                          (case a ''charge_group'' of None \<Rightarrow> PInt 1 | Some v \<Rightarrow> v))))
            (zip [1 .. int (length (nodes other))] (nodes other))"
    using m(2) assms(1) same by simp
  ultimately show ?thesis using m(3) by blast
qed

lemma molecule_C_ok:
  "well_formed molecule_C" "integer_residues molecule_C" "keyword_free molecule_C"
  by (simp_all add: well_formed_def integer_residues_def keyword_free_def molecule_C_def
      int_attr_def)

theorem merge_into_empty_molecule_witness:
  "fst (merge_molecule empty_molecule molecule_C) = Inr [(''x'', 1), (''y'', 2)]
   \<and> nrexcl (snd (merge_molecule empty_molecule molecule_C)) = Some 1
   \<and> nodes (snd (merge_molecule empty_molecule molecule_C))
       = [(1, [''resid'' \<mapsto> PInt 4, ''charge_group'' \<mapsto> PInt 1]),
          (2, [''resid'' \<mapsto> PInt 1, ''charge_group'' \<mapsto> PInt 7])]"
proof -
  have h: "nodes empty_molecule = []" "force_field empty_molecule = force_field molecule_C"
    "nrexcl empty_molecule = None"
    by (simp_all add: empty_molecule_def molecule_C_def)
  have up: "[1 .. int (length (nodes molecule_C))] = [1, 2]"
    by (simp add: molecule_C_def upto_rec1)
  from merge_into_empty_molecule [OF h molecule_C_ok] obtain self' where
    m: "merge_molecule empty_molecule molecule_C =
        (Inr (zip (map fst (nodes molecule_C)) [1 .. int (length (nodes molecule_C))]), self')"
      "nrexcl self' = nrexcl molecule_C"
      "nodes self' =
          map (\<lambda>(i, k, a).
                 (i, a(''resid'' \<mapsto> (case a ''resid'' of None \<Rightarrow> PInt 1 | Some v \<Rightarrow> v),
                       ''charge_group'' \<mapsto>
                          (case a ''charge_group'' of None \<Rightarrow> PInt 1 | Some v \<Rightarrow> v))))
            (zip [1 .. int (length (nodes molecule_C))] (nodes molecule_C))"
    by blast
  have a: "fst (merge_molecule empty_molecule molecule_C) = Inr [(''x'', 1), (''y'', 2)]"
    unfolding m(1) up by (simp add: molecule_C_def)
  have b: "nrexcl (snd (merge_molecule empty_molecule molecule_C)) = Some 1"
    unfolding m(1) using m(2) by (simp add: molecule_C_def)
  have c: "nodes (snd (merge_molecule empty_molecule molecule_C))
       = [(1, [''resid'' \<mapsto> PInt 4, ''charge_group'' \<mapsto> PInt 1]),
          (2, [''resid'' \<mapsto> PInt 1, ''charge_group'' \<mapsto> PInt 7])]"
    unfolding m(1) using m(3) unfolding up by (simp add: molecule_C_def)
  show ?thesis using a b c by simp
qed

text \<open>
  C10 as stated covers every \<open>other\<close>. A resid that is present but not an integer is not
  kept: a string plus the offset 0 is a TypeError, and the merge into the empty molecule ends
  there, after the adoption of nrexcl, with no atom inserted.
\<close>

theorem merge_into_empty_molecule_text_resid:
  "nodes empty_molecule = []
   \<and> force_field empty_molecule = force_field molecule_text_resid
   \<and> nrexcl empty_molecule = None
   \<and> map_of (nodes molecule_text_resid) ''x'' = Some [''resid'' \<mapsto> PStr ''A'']
   \<and> fst (merge_molecule empty_molecule molecule_text_resid) = Inl TypeError
   \<and> nodes (snd (merge_molecule empty_molecule molecule_text_resid)) = []"
  by (simp add: merge_molecule_def merge_offsets_def empty_molecule_def molecule_text_resid_def
      dict_get_default_def)


lemma py_add_error: "py_add a b = Inl e \<Longrightarrow> e = TypeError"
  by (induction a b rule: py_add.induct) simp_all

lemma merge_atoms_frame:
  "merge_atoms ro oc idx ns corr self = (res, self') \<Longrightarrow>
     nrexcl self' = nrexcl self \<and> (\<forall>e. res = Inl e \<longrightarrow> e = TypeError)"
proof (induction ns arbitrary: idx corr self)
  case Nil
  then show ?case by auto
next
  case (Cons x ns)
  obtain k a where x: "x = (k, a)" by (cases x)
  show ?case
  proof (cases "py_add (dict_get_default a ''resid'' (PInt 1)) ro")
    case (Inl e)
    then show ?thesis using Cons.prems x py_add_error [OF Inl] by auto
  next
    case r: (Inr resid)
    show ?thesis
    proof (cases "py_add (dict_get_default a ''charge_group'' (PInt 1)) oc")
      case (Inl e)
      then show ?thesis using Cons.prems x r py_add_error [OF Inl] by auto
    next
      case (Inr cg)
      let ?new = "a(''resid'' \<mapsto> resid, ''charge_group'' \<mapsto> cg)"
      let ?self = "add_node idx ?new self"
      show ?thesis
      proof (cases "?new ''node_for_adding'' \<noteq> None \<or> ?new ''self'' \<noteq> None")
        case True
        then have "add_node_keywords idx ?new self = (Inl TypeError, self)"
          unfolding add_node_keywords_def by (rule if_P)
        then show ?thesis using Cons.prems x r Inr by auto
      next
        case False
        then have "add_node_keywords idx ?new self = (Inr (), ?self)"
          unfolding add_node_keywords_def by (rule if_not_P)
        then have "merge_atoms ro oc (idx + 1) ns (AList.update k idx corr) ?self = (res, self')"
          using Cons.prems x r Inr by simp
        from Cons.IH [OF this] show ?thesis by (simp add: add_node_def)
      qed
    qed
  qed
qed

lemma add_interaction_frame:
  "add_interaction t as p m self = (res, self') \<Longrightarrow>
     nrexcl self' = nrexcl self \<and> (\<forall>e. res = Inl e \<longrightarrow> e = AtomNotFound)"
  by (auto simp: add_interaction_def Let_def split: option.splits prod.splits)

lemma correspondence_atoms_error: "correspondence_atoms corr as = Inl e \<Longrightarrow> e = KeyError"
  by (induction as arbitrary: e) (auto split: option.splits sum.splits)

lemma merge_interaction_list_frame:
  "merge_interaction_list corr n l self = (res, self') \<Longrightarrow>
     nrexcl self' = nrexcl self \<and> (\<forall>e. res = Inl e \<longrightarrow> e = KeyError \<or> e = AtomNotFound)"
proof (induction l arbitrary: self)
  case Nil
  then show ?case by auto
next
  case (Cons x l)
  show ?case
  proof (cases "correspondence_atoms corr (atoms x)")
    case (Inl e)
    then show ?thesis using Cons.prems correspondence_atoms_error [OF Inl] by auto
  next
    case (Inr idxs)
    obtain r1 self1 where a: "add_interaction n idxs (parameters x) (Some (meta x)) self = (r1, self1)"
      by (cases "add_interaction n idxs (parameters x) (Some (meta x)) self")
    note f = add_interaction_frame [OF a]
    show ?thesis
    proof (cases r1)
      case (Inl e)
      then show ?thesis using Cons.prems Inr a f by auto
    next
      case u: (Inr u)
      then have "merge_interaction_list corr n l self1 = (res, self')"
        using Cons.prems Inr a by simp
      from Cons.IH [OF this] f show ?thesis by simp
    qed
  qed
qed

lemma merge_interactions_frame:
  "merge_interactions corr reg self = (res, self') \<Longrightarrow>
     nrexcl self' = nrexcl self \<and> (\<forall>e. res = Inl e \<longrightarrow> e = KeyError \<or> e = AtomNotFound)"
proof (induction reg arbitrary: self)
  case Nil
  then show ?case by auto
next
  case (Cons x reg)
  obtain n l where x: "x = (n, l)" by (cases x)
  obtain r1 self1 where a: "merge_interaction_list corr n l self = (r1, self1)"
    by (cases "merge_interaction_list corr n l self")
  note f = merge_interaction_list_frame [OF a]
  show ?case
  proof (cases r1)
    case (Inl e)
    then show ?thesis using Cons.prems x a f by auto
  next
    case (Inr u)
    then have "merge_interactions corr reg self1 = (res, self')"
      using Cons.prems x a by simp
    from Cons.IH [OF this] f show ?thesis by simp
  qed
qed

lemma add_edge_nrexcl: "nrexcl (add_edge u v self) = nrexcl self"
  by (simp add: add_edge_def Let_def)

lemma merge_edges_frame:
  "merge_edges corr es self = (res, self') \<Longrightarrow>
     nrexcl self' = nrexcl self \<and> (\<forall>e. res = Inl e \<longrightarrow> e = KeyError)"
proof (induction es arbitrary: self)
  case Nil
  then show ?case by auto
next
  case (Cons x es)
  obtain u v where x: "x = (u, v)" by (cases x)
  show ?case
  proof (cases "map_of corr u")
    case None
    then show ?thesis using Cons.prems x by auto
  next
    case c1: (Some c1)
    show ?thesis
    proof (cases "map_of corr v")
      case None
      then show ?thesis using Cons.prems x c1 by auto
    next
      case (Some c2)
      then have "merge_edges corr es (if c1 \<noteq> c2 then add_edge c1 c2 self else self) = (res, self')"
        using Cons.prems x c1 by simp
      from Cons.IH [OF this] show ?thesis by (simp add: add_edge_nrexcl)
    qed
  qed
qed

lemma merge_offsets_error: "merge_offsets ns = Inl e \<Longrightarrow> e = KeyError"
  by (auto simp: merge_offsets_def Let_def split: list.splits option.splits prod.splits)

lemma merge_molecule_after_checks:
  assumes "force_field self = force_field other" and "nrexcl self = nrexcl other"
    and "merge_molecule self other = (res, self')"
  shows "nrexcl self' = nrexcl other
     \<and> (\<forall>e. res = Inl e \<longrightarrow> e = KeyError \<or> e = TypeError \<or> e = AtomNotFound)"
proof -
  have same: "(if nrexcl self = None \<and> nodes self = [] then self\<lparr>nrexcl := nrexcl other\<rparr> else self) = self"
    unfolding assms(2) [symmetric] by simp
  show ?thesis
  proof (cases "merge_offsets (nodes self)")
    case (Inl e)
    then show ?thesis
      using assms merge_offsets_error [OF Inl]
      unfolding merge_molecule_def Let_def same by auto
  next
    case (Inr t)
    obtain offset ro oc where t: "t = (offset, ro, oc)" by (cases t)
    obtain r2 self2 where a: "merge_atoms ro oc (offset + 1) (nodes other) [] self = (r2, self2)"
      by (cases "merge_atoms ro oc (offset + 1) (nodes other) [] self")
    note f2 = merge_atoms_frame [OF a]
    show ?thesis
    proof (cases r2)
      case (Inl e)
      then show ?thesis
        using assms Inr t a f2 unfolding merge_molecule_def Let_def same by auto
    next
      case c: (Inr corr)
      obtain r3 self3 where b: "merge_interactions corr (interactions other) self2 = (r3, self3)"
        by (cases "merge_interactions corr (interactions other) self2")
      note f3 = merge_interactions_frame [OF b]
      show ?thesis
      proof (cases r3)
        case (Inl e)
        then show ?thesis
          using assms Inr t a c b f2 f3 unfolding merge_molecule_def Let_def same by auto
      next
        case u: (Inr u)
        obtain r4 self4 where d: "merge_edges corr (edges other) self3 = (r4, self4)"
          by (cases "merge_edges corr (edges other) self3")
        note f4 = merge_edges_frame [OF d]
        show ?thesis
          using assms Inr t a c b u d f2 f3 f4 unfolding merge_molecule_def Let_def same
          by (cases r4) auto
      qed
    qed
  qed
qed

lemma mismatch_distinct:
  "NrexclMismatch \<noteq> KeyError" "NrexclMismatch \<noteq> TypeError" "NrexclMismatch \<noteq> AtomNotFound"
  "ForceFieldMismatch \<noteq> KeyError" "ForceFieldMismatch \<noteq> TypeError"
  "ForceFieldMismatch \<noteq> AtomNotFound" "ForceFieldMismatch \<noteq> NrexclMismatch"
  by (simp_all add: NrexclMismatch_def ForceFieldMismatch_def AtomNotFound_def)

text \<open>
  C6. \<open>merge_molecule(self, other)\<close> fails with the force-field mismatch, \<open>self\<close>
  untouched, whenever the force fields differ. With equal force fields it fails with the
  nrexcl mismatch, \<open>self\<close> untouched, whenever the nrexcl values differ, unless \<open>self\<close> has
  no atom and its nrexcl is not set: then \<open>self\<close> takes the nrexcl of \<open>other\<close> and the merge
  goes on as it does for a \<open>self\<close> with that nrexcl, ending with the nrexcl of \<open>other\<close> and
  with neither mismatch.
\<close>

theorem merge_molecule_preconditions:
  "(force_field self \<noteq> force_field other \<longrightarrow>
      merge_molecule self other = (Inl ForceFieldMismatch, self))
   \<and> (force_field self = force_field other \<and> nrexcl self \<noteq> nrexcl other
        \<and> \<not> (nrexcl self = None \<and> nodes self = []) \<longrightarrow>
      merge_molecule self other = (Inl NrexclMismatch, self))
   \<and> (force_field self = force_field other \<and> nrexcl self = None \<and> nodes self = [] \<longrightarrow>
      merge_molecule self other = merge_molecule (self\<lparr>nrexcl := nrexcl other\<rparr>) other
      \<and> nrexcl (snd (merge_molecule self other)) = nrexcl other
      \<and> fst (merge_molecule self other) \<noteq> Inl NrexclMismatch
      \<and> fst (merge_molecule self other) \<noteq> Inl ForceFieldMismatch)"
proof (intro conjI impI)
  assume "force_field self \<noteq> force_field other"
  then show "merge_molecule self other = (Inl ForceFieldMismatch, self)"
    by (simp add: merge_molecule_def)
next
  assume "force_field self = force_field other \<and> nrexcl self \<noteq> nrexcl other
        \<and> \<not> (nrexcl self = None \<and> nodes self = [])"
  then show "merge_molecule self other = (Inl NrexclMismatch, self)"
    by (auto simp add: merge_molecule_def)
next
  assume a: "force_field self = force_field other \<and> nrexcl self = None \<and> nodes self = []"
  let ?self = "self\<lparr>nrexcl := nrexcl other\<rparr>"
  show ad: "merge_molecule self other = merge_molecule ?self other"
    using a by (simp add: merge_molecule_adopts)
  have "merge_molecule ?self other = (fst (merge_molecule ?self other), snd (merge_molecule ?self other))"
    by simp
  from merge_molecule_after_checks [OF _ _ this] a
  have f: "nrexcl (snd (merge_molecule ?self other)) = nrexcl other"
     "\<forall>e. fst (merge_molecule ?self other) = Inl e \<longrightarrow> e = KeyError \<or> e = TypeError \<or> e = AtomNotFound"
    by simp_all
  show "nrexcl (snd (merge_molecule self other)) = nrexcl other"
    using f(1) ad by simp
  show "fst (merge_molecule self other) \<noteq> Inl NrexclMismatch"
    using f(2) ad mismatch_distinct by auto
  show "fst (merge_molecule self other) \<noteq> Inl ForceFieldMismatch"
    using f(2) ad mismatch_distinct by auto
qed

theorem merge_molecule_preconditions_witness:
  "merge_molecule molecule_A molecule_ff_b = (Inl ForceFieldMismatch, molecule_A)
   \<and> merge_molecule molecule_A molecule_nrexcl_2 = (Inl NrexclMismatch, molecule_A)
   \<and> nrexcl (snd (merge_molecule empty_molecule molecule_C)) = Some 1
   \<and> fst (merge_molecule empty_molecule molecule_C) \<noteq> Inl NrexclMismatch"
proof -
  have h1: "force_field molecule_A \<noteq> force_field molecule_ff_b"
    by (simp add: molecule_A_def molecule_ff_b_def)
  have h2: "force_field molecule_A = force_field molecule_nrexcl_2
      \<and> nrexcl molecule_A \<noteq> nrexcl molecule_nrexcl_2
      \<and> \<not> (nrexcl molecule_A = None \<and> nodes molecule_A = [])"
    by (simp add: molecule_A_def molecule_nrexcl_2_def)
  have h3: "force_field empty_molecule = force_field molecule_C
      \<and> nrexcl empty_molecule = None \<and> nodes empty_molecule = []"
    by (simp add: empty_molecule_def molecule_C_def)
  have n: "nrexcl molecule_C = Some 1"
    by (simp add: molecule_C_def)
  have a1: "merge_molecule molecule_A molecule_ff_b = (Inl ForceFieldMismatch, molecule_A)"
    using merge_molecule_preconditions [of molecule_A molecule_ff_b] h1 by blast
  have a2: "merge_molecule molecule_A molecule_nrexcl_2 = (Inl NrexclMismatch, molecule_A)"
    using merge_molecule_preconditions [of molecule_A molecule_nrexcl_2] h2 by blast
  have a3: "nrexcl (snd (merge_molecule empty_molecule molecule_C)) = nrexcl molecule_C
      \<and> fst (merge_molecule empty_molecule molecule_C) \<noteq> Inl NrexclMismatch"
    using merge_molecule_preconditions [of empty_molecule molecule_C] h3 by blast
  show ?thesis using a1 a2 a3 n by simp
qed

text \<open>
  C6 as stated lets every empty \<open>self\<close> adopt the nrexcl of \<open>other\<close>. An empty
  molecule whose nrexcl is already 3 does not: merged with a molecule of the same force
  field and nrexcl 1 it fails with the nrexcl mismatch and keeps its nrexcl.
\<close>

theorem merge_molecule_empty_nrexcl_set:
  "nodes empty_nrexcl_3 = [] \<and> force_field empty_nrexcl_3 = force_field molecule_C
   \<and> merge_molecule empty_nrexcl_3 molecule_C = (Inl NrexclMismatch, empty_nrexcl_3)
   \<and> nrexcl empty_nrexcl_3 \<noteq> nrexcl molecule_C"
  by (simp add: merge_molecule_def empty_nrexcl_3_def molecule_C_def)

section \<open>Matching interactions\<close>

lemma nodes_of_atoms_present:
  "set as \<subseteq> set (map fst ns) \<Longrightarrow>
     \<exists>ns'. nodes_of_atoms ns as = Inr ns' \<and> length ns' = length as
        \<and> (\<forall>i < length as. map_of ns (as ! i) = Some (ns' ! i))"
proof (induction as)
  case Nil
  then show ?case by simp
next
  case (Cons x as)
  then obtain ns' where
    r: "nodes_of_atoms ns as = Inr ns'" "length ns' = length as"
       "\<forall>i < length as. map_of ns (as ! i) = Some (ns' ! i)"
    by auto
  from Cons.prems have "x \<in> fst ` set ns" by auto
  then obtain n where n: "map_of ns x = Some n"
    by (cases "map_of ns x") (auto simp: map_of_eq_None_iff)
  have "\<forall>i < length (x # as). map_of ns ((x # as) ! i) = Some ((n # ns') ! i)"
    using r(3) n by (auto simp: nth_Cons split: nat.splits)
  then show ?case using r n by simp
qed

lemma nodes_of_atoms_missing:
  "\<not> set as \<subseteq> set (map fst ns) \<Longrightarrow> nodes_of_atoms ns as = Inl KeyError"
proof (induction as)
  case Nil
  then show ?case by simp
next
  case (Cons x as)
  show ?case
  proof (cases "map_of ns x")
    case None
    then show ?thesis by simp
  next
    case (Some n)
    then have "x \<in> set (map fst ns)" by (auto dest: map_of_SomeD intro: rev_image_eqI)
    with Cons.prems have "\<not> set as \<subseteq> set (map fst ns)" by auto
    from Cons.IH [OF this] Some show ?thesis by simp
  qed
qed

lemma atom_attrs_loop_iff:
  "atom_attrs_loop ns aa \<longleftrightarrow>
     (\<forall>i. i < length ns \<and> i < length aa \<longrightarrow> attributes_match (ns ! i) (aa ! i) [])"
proof (induction ns arbitrary: aa)
  case Nil
  then show ?case by simp
next
  case (Cons atom nodes')
  note IH = Cons.IH
  show ?case
  proof (cases aa)
    case Nil
    then show ?thesis by simp
  next
    case (Cons template_atom atom_attrs)
    have "(\<forall>i. i < length (atom # nodes') \<and> i < length (template_atom # atom_attrs) \<longrightarrow>
             attributes_match ((atom # nodes') ! i) ((template_atom # atom_attrs) ! i) [])
          \<longleftrightarrow> attributes_match atom template_atom []
              \<and> (\<forall>i. i < length nodes' \<and> i < length atom_attrs \<longrightarrow>
                    attributes_match (nodes' ! i) (atom_attrs ! i) [])"
      by (auto simp: nth_Cons split: nat.splits)
    then show ?thesis using IH [of atom_attrs] Cons by auto
  qed
qed

lemma atom_attrs_loop_replicate: "atom_attrs_loop ns (replicate n [])"
  by (simp add: atom_attrs_loop_iff)


text \<open>
  C7. For a molecule that holds every atom of the interaction, \<open>interaction_match\<close> returns
  True exactly when (a) the atoms of template and interaction are equal as tuples, (b) the
  template's parameters are empty or equal the interaction's, (c) for a
  \<open>DeleteInteraction\<close>, each constraint set of \<open>atom_attrs\<close> at a position the interaction
  has matches the attributes of the molecule's atom at that position, and (d) the
  interaction's meta matches the template's meta; it returns False otherwise. For any
  molecule it returns False when the atom tuples differ, in order or otherwise.
\<close>

theorem interaction_match_iff:
  "(set (atoms interaction) \<subseteq> set (map fst (nodes molecule)) \<longrightarrow>
      interaction_match molecule interaction template =
        Inr (template_atoms template = atoms interaction
             \<and> (template_parameters template = []
                  \<or> template_parameters template = parameters interaction)
             \<and> (\<forall>a aa p m. template = DeleteInteraction a aa p m \<longrightarrow>
                  (\<forall>i. i < length aa \<and> i < length (atoms interaction) \<longrightarrow>
                     (\<exists>node. map_of (nodes molecule) (atoms interaction ! i) = Some node
                        \<and> attributes_match node (aa ! i) [])))
             \<and> attributes_match (meta interaction) (template_meta template) []))
   \<and> (template_atoms template \<noteq> atoms interaction \<longrightarrow>
        interaction_match molecule interaction template = Inr False)"
proof (intro conjI impI)
  assume "template_atoms template \<noteq> atoms interaction"
  then show "interaction_match molecule interaction template = Inr False"
    by (simp add: interaction_match_def)
next
  assume sub: "set (atoms interaction) \<subseteq> set (map fst (nodes molecule))"
  let ?A = "template_atoms template = atoms interaction"
  let ?B = "template_parameters template = []
              \<or> template_parameters template = parameters interaction"
  let ?C = "\<forall>a aa p m. template = DeleteInteraction a aa p m \<longrightarrow>
              (\<forall>i. i < length aa \<and> i < length (atoms interaction) \<longrightarrow>
                 (\<exists>node. map_of (nodes molecule) (atoms interaction ! i) = Some node
                    \<and> attributes_match node (aa ! i) []))"
  let ?D = "attributes_match (meta interaction) (template_meta template) []"
  from nodes_of_atoms_present [OF sub] obtain ns' where
    n: "nodes_of_atoms (nodes molecule) (atoms interaction) = Inr ns'"
       "length ns' = length (atoms interaction)"
       "\<forall>i < length (atoms interaction). map_of (nodes molecule) (atoms interaction ! i) = Some (ns' ! i)"
    by blast
  show "interaction_match molecule interaction template = Inr (?A \<and> ?B \<and> ?C \<and> ?D)"
  proof (cases "?A \<and> ?B")
    case False
    then show ?thesis by (auto simp add: interaction_match_def)
  next
    case True
    show ?thesis
    proof (cases template)
      case (TemplateInteraction a p m)
      then show ?thesis
        using True n(1) by (simp add: interaction_match_def atom_attrs_loop_replicate)
    next
      case (DeleteInteraction a aa p m)
      have "atom_attrs_loop ns' aa \<longleftrightarrow>
          (\<forall>i. i < length aa \<and> i < length (atoms interaction) \<longrightarrow>
                 (\<exists>node. map_of (nodes molecule) (atoms interaction ! i) = Some node
                    \<and> attributes_match node (aa ! i) []))"
        unfolding atom_attrs_loop_iff using n(2) n(3) by auto
      then show ?thesis
        using True n(1) DeleteInteraction by (simp add: interaction_match_def)
    qed
  qed
qed

theorem interaction_match_iff_witness:
  "interaction_match typed_pair bond_1_2 delete_bond_1_2 = Inr True
   \<and> interaction_match typed_pair bond_1_2
        (TemplateInteraction [2, 1] [] []) = Inr False"
proof -
  have sub: "set (atoms bond_1_2) \<subseteq> set (map fst (nodes typed_pair))"
    by (simp add: bond_1_2_def typed_pair_def)
  have c: "\<exists>node. map_of (nodes typed_pair) (atoms bond_1_2 ! i) = Some node
        \<and> attributes_match node
             ([[(''atomname'', Plain (PStr ''BB''))],
               [(''atomname'', Predicate (Choice [PStr ''SC1'', PStr ''SC2'']))]] ! i) []"
    if "i < 2" for i
  proof -
    from that have "i = 0 \<or> i = 1" by auto
    then show ?thesis
      by (auto simp add: bond_1_2_def typed_pair_def dict_get_def)
  qed
  have "interaction_match typed_pair bond_1_2 delete_bond_1_2 = Inr True"
    using interaction_match_iff [of bond_1_2 typed_pair delete_bond_1_2] sub c
    by (simp add: delete_bond_1_2_def bond_1_2_def dict_get_def)
  moreover have "interaction_match typed_pair bond_1_2 (TemplateInteraction [2, 1] [] []) = Inr False"
    using interaction_match_iff [of bond_1_2 typed_pair "TemplateInteraction [2, 1] [] []"]
    by (simp add: bond_1_2_def)
  ultimately show ?thesis by simp
qed

text \<open>
  C7 as stated covers every molecule. On a molecule that lacks an atom of the
  interaction the lookup \<open>molecule.nodes[atom]\<close> raises KeyError although (a), (b) and (d)
  hold and (c) asks nothing of a plain \<open>Interaction\<close> template.
\<close>

theorem interaction_match_atom_not_in_molecule:
  "interaction_match no_atoms bond_1 (TemplateInteraction [1] [] []) = Inl KeyError
   \<and> template_atoms (TemplateInteraction [1] [] []) = atoms bond_1
   \<and> template_parameters (TemplateInteraction [1::int] [] []) = []
   \<and> attributes_match (meta bond_1) (template_meta (TemplateInteraction [1::int] [] [])) []"
  by (simp add: interaction_match_def no_atoms_def bond_1_def)

end
